theory Spec2Isabelle
  imports Main
begin

section \<open>JavaScript values\<close>

text \<open>
  Tool parameters, raw inputs and outputs and HTTP messages are JSON-like values.
  \<open>JUndefined\<close> is the value of a missing property. Numbers are modelled as integers:
  the code below only tests them for truthiness and prints them.
\<close>

datatype json =
    JUndefined
  | JNull
  | JBool bool
  | JNum int
  | JStr string
  | JArr "json list"
  | JObj "(string \<times> json) list"

text \<open>Truthiness, as used by \<open>if (v)\<close>, \<open>v || d\<close> and \<open>v && w\<close>.\<close>

fun truthy :: "json \<Rightarrow> bool" where
  "truthy JUndefined = False"
| "truthy JNull = False"
| "truthy (JBool b) = b"
| "truthy (JNum n) = (n \<noteq> 0)"
| "truthy (JStr s) = (s \<noteq> [])"
| "truthy (JArr xs) = True"
| "truthy (JObj kvs) = True"

text \<open>\<open>a || b\<close>\<close>

definition js_or :: "json \<Rightarrow> json \<Rightarrow> json" where
  "js_or a b = (if truthy a then a else b)"

text \<open>
  Property access \<open>obj[key]\<close> on a value that is an object: the own property, or
  \<open>undefined\<close>. Every caller below holds an object when it reads a property.
\<close>

fun js_get :: "json \<Rightarrow> string \<Rightarrow> json" where
  "js_get (JObj kvs) k = (case map_of kvs k of Some v \<Rightarrow> v | None \<Rightarrow> JUndefined)"
| "js_get v k = JUndefined"

text \<open>\<open>key in obj\<close> for an object built from JSON: the key is one of its properties.\<close>

fun js_in :: "string \<Rightarrow> json \<Rightarrow> bool" where
  "js_in k (JObj kvs) = (map_of kvs k \<noteq> None)"
| "js_in k v = False"

text \<open>\<open>{...obj, key: v}\<close>: the property is replaced in place or added at the end.\<close>

fun assoc_set :: "'k \<Rightarrow> 'v \<Rightarrow> ('k \<times> 'v) list \<Rightarrow> ('k \<times> 'v) list" where
  "assoc_set k v [] = [(k, v)]"
| "assoc_set k v ((k', v') # kvs) =
     (if k' = k then (k, v) # kvs else (k', v') # assoc_set k v kvs)"

definition assoc_delete :: "'k \<Rightarrow> ('k \<times> 'v) list \<Rightarrow> ('k \<times> 'v) list" where
  "assoc_delete k kvs = filter (\<lambda>kv. fst kv \<noteq> k) kvs"

fun js_with :: "json \<Rightarrow> string \<Rightarrow> json \<Rightarrow> json" where
  "js_with (JObj kvs) k v = JObj (assoc_set k v kvs)"
| "js_with j k v = JObj [(k, v)]"

subsection \<open>Strings\<close>

definition digit_char :: "nat \<Rightarrow> char" where
  "digit_char d = ''0123456789'' ! (d mod 10)"

function show_nat :: "nat \<Rightarrow> string" where
  "show_nat n = (if n < 10 then [digit_char n] else show_nat (n div 10) @ [digit_char (n mod 10)])"
  by pat_completeness auto
termination
  by (relation "measure (\<lambda>n. n)") auto

definition show_int :: "int \<Rightarrow> string" where
  "show_int i = (if i < 0 then CHR ''-'' # show_nat (nat (- i)) else show_nat (nat i))"

fun join_with :: "string \<Rightarrow> string list \<Rightarrow> string" where
  "join_with sep [] = []"
| "join_with sep [x] = x"
| "join_with sep (x # y # ys) = x @ sep @ join_with sep (y # ys)"

text \<open>\<open>String(v)\<close>, the conversion a template literal applies.\<close>

fun js_string :: "json \<Rightarrow> string" where
  "js_string JUndefined = ''undefined''"
| "js_string JNull = ''null''"
| "js_string (JBool b) = (if b then ''true'' else ''false'')"
| "js_string (JNum n) = show_int n"
| "js_string (JStr s) = s"
| "js_string (JArr xs) =
     join_with '','' (map (\<lambda>x. if x = JNull \<or> x = JUndefined then [] else js_string x) xs)"
| "js_string (JObj kvs) = ''[object Object]''"

definition starts_with :: "string \<Rightarrow> string \<Rightarrow> bool" where
  "starts_with s p = (take (length p) s = p)"

text \<open>\<open>s.includes(p)\<close>\<close>

fun str_includes :: "string \<Rightarrow> string \<Rightarrow> bool" where
  "str_includes [] p = (p = [])"
| "str_includes (c # cs) p = (starts_with (c # cs) p \<or> str_includes cs p)"

section \<open>Tool-call manager (src/tools/tool-call-manager.ts)\<close>

datatype ToolCallStatus = pending | in_progress | completed | failed

datatype ToolKind =
  read | edit | delete | move | search | execute | think | fetch | switch_mode | other

datatype ToolCallContent =
    TextContent string
  | TerminalContent string
  | DiffContent json

record ToolCallLocation =
  path :: json

text \<open>
  \<open>ToolCallUpdate\<close>: the body of a \<open>tool_call\<close> notification, and, with only the
  changed fields present, of a \<open>tool_call_update\<close>.
\<close>

record ToolCallUpdate =
  toolCallId :: string
  title :: "string option"
  kind :: "ToolKind option"
  status :: "ToolCallStatus option"
  rawInput :: "json option"
  locations :: "ToolCallLocation list option"
  content :: "ToolCallContent list option"
  rawOutput :: "json option"

datatype SessionUpdate =
    tool_call ToolCallUpdate
  | tool_call_update ToolCallUpdate

text \<open>A \<open>session/update\<close> notification (\<open>jsonrpc\<close> and \<open>method\<close> are constant).\<close>

record AcpNotification =
  sessionId :: string
  update :: SessionUpdate

record ToolCallInfo =
  info_toolCallId :: string
  info_sessionId :: string
  toolName :: string
  info_status :: ToolCallStatus
  startTime :: nat
  endTime :: "nat option"
  info_update :: ToolCallUpdate

text \<open>
  The manager's state. \<open>activeToolCalls\<close> is a JavaScript \<open>Map\<close>: keys are unique and
  kept in insertion order. \<open>timers\<close> holds the pending \<open>setTimeout\<close> evictions as
  (due time, tool call id). The \<open>sendNotification\<close> callback is the output channel:
  every operation returns the notifications it sends, in order.
\<close>

record ToolCallManager =
  activeToolCalls :: "(string \<times> ToolCallInfo) list"
  toolCallCounter :: nat
  timers :: "(nat \<times> string) list"

definition newToolCallManager :: ToolCallManager where
  "newToolCallManager = \<lparr>activeToolCalls = [], toolCallCounter = 0, timers = []\<rparr>"

text \<open>\<open>`tool_${toolName}_${Date.now()}_${this.toolCallCounter}`\<close>\<close>

definition toolCallIdOf :: "string \<Rightarrow> nat \<Rightarrow> nat \<Rightarrow> string" where
  "toolCallIdOf name now counter =
     ''tool_'' @ name @ ''_'' @ show_nat now @ ''_'' @ show_nat counter"

definition generateToolCallId :: "nat \<Rightarrow> string \<Rightarrow> ToolCallManager \<Rightarrow> string \<times> ToolCallManager" where
  "generateToolCallId now name m =
     (let c = toolCallCounter m + 1
      in (toolCallIdOf name now c, m\<lparr>toolCallCounter := c\<rparr>))"

record ReportOptions =
  ro_title :: string
  ro_kind :: ToolKind
  ro_status :: "ToolCallStatus option"
  ro_rawInput :: "json option"
  ro_locations :: "ToolCallLocation list option"

text \<open>\<open>...(v && {key: v})\<close>: the key is present when the value is defined and truthy.\<close>

definition when_truthy :: "json option \<Rightarrow> json option" where
  "when_truthy v = (case v of None \<Rightarrow> None | Some j \<Rightarrow> if truthy j then Some j else None)"

definition reportToolCall ::
  "nat \<Rightarrow> string \<Rightarrow> string \<Rightarrow> ReportOptions \<Rightarrow> ToolCallManager
     \<Rightarrow> string \<times> AcpNotification list \<times> ToolCallManager" where
  "reportToolCall now sid name opts m =
     (let (tid, m1) = generateToolCallId now name m;
          st = (case ro_status opts of Some s \<Rightarrow> s | None \<Rightarrow> pending);
          upd = \<lparr>toolCallId = tid, title = Some (ro_title opts), kind = Some (ro_kind opts),
                 status = Some st, rawInput = when_truthy (ro_rawInput opts),
                 locations = ro_locations opts, content = None, rawOutput = None\<rparr>;
          info = \<lparr>info_toolCallId = tid, info_sessionId = sid, toolName = name,
                  info_status = st, startTime = now, endTime = None, info_update = upd\<rparr>;
          m2 = m1\<lparr>activeToolCalls := assoc_set tid info (activeToolCalls m1)\<rparr>
      in (tid, [\<lparr>sessionId = sid, update = tool_call upd\<rparr>], m2))"

record ToolCallUpdates =
  u_title :: "string option"
  u_status :: "ToolCallStatus option"
  u_content :: "ToolCallContent list option"
  u_locations :: "ToolCallLocation list option"
  u_rawOutput :: "json option"

definition noUpdates :: ToolCallUpdates where
  "noUpdates = \<lparr>u_title = None, u_status = None, u_content = None, u_locations = None,
                 u_rawOutput = None\<rparr>"

text \<open>\<open>{...old, ...(v !== undefined && {key: v})}\<close> on an optional field.\<close>

definition override :: "'a option \<Rightarrow> 'a option \<Rightarrow> 'a option" where
  "override new old = (case new of Some v \<Rightarrow> Some v | None \<Rightarrow> old)"

definition updatePayload :: "string \<Rightarrow> ToolCallUpdates \<Rightarrow> ToolCallUpdate" where
  "updatePayload tid u =
     \<lparr>toolCallId = tid, title = u_title u, kind = None, status = u_status u, rawInput = None,
      locations = u_locations u, content = u_content u, rawOutput = u_rawOutput u\<rparr>"

text \<open>
  The stored \<open>ToolCallInfo\<close> after an update: a status is taken over, with the end time
  when it is terminal, and the changed fields are merged into the stored \<open>update\<close>.
\<close>

definition applyUpdates :: "nat \<Rightarrow> ToolCallUpdates \<Rightarrow> ToolCallInfo \<Rightarrow> ToolCallInfo" where
  "applyUpdates now u info =
     (let info1 = (case u_status u of
                     None \<Rightarrow> info
                   | Some s \<Rightarrow>
                       (if s = completed \<or> s = failed
                        then info\<lparr>info_status := s, endTime := Some now\<rparr>
                        else info\<lparr>info_status := s\<rparr>));
          old = info_update info1
      in info1\<lparr>info_update :=
                 old\<lparr>title := override (u_title u) (title old),
                     status := override (u_status u) (status old),
                     content := override (u_content u) (content old),
                     locations := override (u_locations u) (locations old),
                     rawOutput := override (u_rawOutput u) (rawOutput old)\<rparr>\<rparr>)"

definition updateToolCall ::
  "nat \<Rightarrow> string \<Rightarrow> string \<Rightarrow> ToolCallUpdates \<Rightarrow> ToolCallManager
     \<Rightarrow> AcpNotification list \<times> ToolCallManager" where
  "updateToolCall now sid tid u m =
     (case map_of (activeToolCalls m) tid of
        None \<Rightarrow> ([], m)
      | Some info \<Rightarrow>
          ([\<lparr>sessionId = sid, update = tool_call_update (updatePayload tid u)\<rparr>],
           m\<lparr>activeToolCalls := assoc_set tid (applyUpdates now u info) (activeToolCalls m)\<rparr>))"

text \<open>
  \<open>setTimeout(() => this.activeToolCalls.delete(toolCallId), 30000)\<close>, and the timer
  firing later.
\<close>

definition scheduleEviction :: "nat \<Rightarrow> string \<Rightarrow> ToolCallManager \<Rightarrow> ToolCallManager" where
  "scheduleEviction now tid m = m\<lparr>timers := timers m @ [(now + 30000, tid)]\<rparr>"

definition runTimers :: "nat \<Rightarrow> ToolCallManager \<Rightarrow> ToolCallManager" where
  "runTimers now m =
     (let due = filter (\<lambda>t. fst t \<le> now) (timers m)
      in m\<lparr>activeToolCalls := fold (\<lambda>t. assoc_delete (snd t)) due (activeToolCalls m),
            timers := filter (\<lambda>t. \<not> fst t \<le> now) (timers m)\<rparr>)"

record CompleteOptions =
  co_title :: "string option"
  co_content :: "ToolCallContent list option"
  co_rawOutput :: "json option"

definition completeToolCall ::
  "nat \<Rightarrow> string \<Rightarrow> string \<Rightarrow> CompleteOptions \<Rightarrow> ToolCallManager
     \<Rightarrow> AcpNotification list \<times> ToolCallManager" where
  "completeToolCall now sid tid opts m =
     (let (ns, m1) = updateToolCall now sid tid
                       \<lparr>u_title = co_title opts, u_status = Some completed,
                        u_content = co_content opts, u_locations = None,
                        u_rawOutput = co_rawOutput opts\<rparr> m
      in (ns, scheduleEviction now tid m1))"

record FailOptions =
  fo_title :: "string option"
  fo_error :: string
  fo_rawOutput :: "json option"

definition failToolCall ::
  "nat \<Rightarrow> string \<Rightarrow> string \<Rightarrow> FailOptions \<Rightarrow> ToolCallManager
     \<Rightarrow> AcpNotification list \<times> ToolCallManager" where
  "failToolCall now sid tid opts m =
     (let t = (case fo_title opts of
                 Some s \<Rightarrow> (if s \<noteq> [] then s else ''Tool execution failed'')
               | None \<Rightarrow> ''Tool execution failed'');
          (ns, m1) = updateToolCall now sid tid
                       \<lparr>u_title = Some t, u_status = Some failed,
                        u_content = Some [TextContent (''Error: '' @ fo_error opts)],
                        u_locations = None, u_rawOutput = fo_rawOutput opts\<rparr> m
      in (ns, scheduleEviction now tid m1))"

definition getSessionToolCalls :: "string \<Rightarrow> ToolCallManager \<Rightarrow> ToolCallInfo list" where
  "getSessionToolCalls sid m =
     filter (\<lambda>tc. info_sessionId tc = sid) (map snd (activeToolCalls m))"

text \<open>
  The loop of \<open>cancelSessionToolCalls\<close> over the snapshot taken by
  \<open>getSessionToolCalls\<close>.
\<close>

fun cancelLoop ::
  "nat \<Rightarrow> string \<Rightarrow> ToolCallInfo list \<Rightarrow> ToolCallManager
     \<Rightarrow> AcpNotification list \<times> ToolCallManager" where
  "cancelLoop now sid [] m = ([], m)"
| "cancelLoop now sid (tc # tcs) m =
     (let (ns1, m1) =
            (if info_status tc = pending \<or> info_status tc = in_progress
             then updateToolCall now sid (info_toolCallId tc)
                    (noUpdates\<lparr>u_status := Some failed, u_title := Some ''Cancelled by user''\<rparr>) m
             else ([], m));
          m2 = m1\<lparr>activeToolCalls := assoc_delete (info_toolCallId tc) (activeToolCalls m1)\<rparr>;
          (ns2, m3) = cancelLoop now sid tcs m2
      in (ns1 @ ns2, m3))"

definition cancelSessionToolCalls ::
  "nat \<Rightarrow> string \<Rightarrow> ToolCallManager \<Rightarrow> AcpNotification list \<times> ToolCallManager" where
  "cancelSessionToolCalls now sid m = cancelLoop now sid (getSessionToolCalls sid m) m"

definition cleanup :: "ToolCallManager \<Rightarrow> ToolCallManager" where
  "cleanup m = m\<lparr>activeToolCalls := []\<rparr>"

subsection \<open>Permission requests\<close>

datatype PermissionOutcome = selected string | cancelled

record PermissionOption =
  optionId :: string
  option_name :: string
  option_kind :: string

record RequestPermissionParams =
  rp_sessionId :: string
  rp_toolCall :: ToolCallUpdate
  rp_options :: "PermissionOption list"

text \<open>
  What awaiting the \<open>requestPermission\<close> handler gives: it rejects, or it resolves to
  an outcome, where \<open>None\<close> is a falsy value (\<open>undefined\<close>, \<open>null\<close>).
\<close>

datatype PermissionReply = Rejects string | Resolves "PermissionOutcome option"

text \<open>
  The handler given at construction is a parameter: \<open>None\<close> when the option was not
  supplied.
\<close>

definition requestToolPermission ::
  "(RequestPermissionParams \<Rightarrow> PermissionReply) option \<Rightarrow> ToolCallManager
     \<Rightarrow> string \<Rightarrow> string \<Rightarrow> PermissionOption list \<Rightarrow> PermissionOutcome" where
  "requestToolPermission requestPermission m sid tid options =
     (case requestPermission of
        None \<Rightarrow> selected ''allow-once''
      | Some handler \<Rightarrow>
          (case map_of (activeToolCalls m) tid of
             None \<Rightarrow> selected ''reject-once''
           | Some info \<Rightarrow>
               (case handler \<lparr>rp_sessionId = sid, rp_toolCall = info_update info,
                              rp_options = options\<rparr> of
                  Resolves None \<Rightarrow> selected ''reject-once''
                | Resolves (Some outcome) \<Rightarrow> outcome
                | Rejects e \<Rightarrow> selected ''reject-once'')))"

section \<open>Tool registry (src/tools/registry.ts)\<close>

text \<open>
  What a tool handler returns: \<open>{success, result?, error?, metadata?}\<close>. An absent
  \<open>result\<close> is \<open>JUndefined\<close>, an absent \<open>metadata\<close> the empty object.
\<close>

record ToolResult =
  success :: bool
  result :: json
  error :: "string option"
  metadata :: "(string \<times> json) list"

text \<open>
  Awaiting the handler gives a result, or the handler throws; the registry only uses the
  thrown value's message (\<open>error.message\<close> or \<open>String(error)\<close>).
\<close>

datatype HandlerOutcome = Returns ToolResult | Throws string

text \<open>\<open>required\<close> is \<open>tool.parameters.required\<close>, optional in the schema.\<close>

record Tool =
  tool_name :: string
  required :: "string list option"
  handler :: "json \<Rightarrow> HandlerOutcome"

record ToolCall =
  call_id :: string
  call_name :: string
  parameters :: json

record ToolRegistry =
  tools :: "(string \<times> Tool) list"
  toolCallManager :: "ToolCallManager option"

definition setToolCallManager :: "ToolCallManager \<Rightarrow> ToolRegistry \<Rightarrow> ToolRegistry" where
  "setToolCallManager m reg = reg\<lparr>toolCallManager := Some m\<rparr>"

fun registerTools :: "Tool list \<Rightarrow> (string \<times> Tool) list \<Rightarrow> (string \<times> Tool) list" where
  "registerTools [] ts = ts"
| "registerTools (t # rest) ts = registerTools rest (assoc_set (tool_name t) t ts)"

text \<open>\<open>registerProvider\<close>, for the tools the provider's \<open>getTools()\<close> yields.\<close>

definition registerProvider :: "Tool list \<Rightarrow> ToolRegistry \<Rightarrow> ToolRegistry" where
  "registerProvider provided reg = reg\<lparr>tools := registerTools provided (tools reg)\<rparr>"

definition kindMap :: "(string \<times> ToolKind) list" where
  "kindMap =
    [(''read_file'', read), (''copy_file'', read), (''list_directory'', read),
     (''get_file_info'', read),
     (''write_file'', edit), (''append_file'', edit), (''create_file'', edit),
     (''patch_file'', edit),
     (''delete_file'', delete), (''remove_file'', delete), (''remove_directory'', delete),
     (''move_file'', move), (''rename_file'', move),
     (''search_codebase'', search), (''search_files'', search), (''grep'', search),
     (''find_files'', search), (''find_references'', search), (''find_definitions'', search),
     (''run_tests'', execute), (''run_command'', execute), (''execute_command'', execute),
     (''run_script'', execute), (''shell'', execute),
     (''fetch_url'', fetch), (''http_request'', fetch), (''download_file'', fetch),
     (''api_request'', fetch), (''web_search'', fetch),
     (''think'', think), (''reason'', think), (''plan'', think), (''analyze'', think),
     (''switch_mode'', switch_mode), (''set_mode'', switch_mode), (''change_mode'', switch_mode),
     (''analyze_code'', read), (''apply_code_changes'', edit), (''get_project_info'', read),
     (''explain_code'', think)]"

definition getToolKind :: "string \<Rightarrow> ToolKind" where
  "getToolKind name = (case map_of kindMap name of Some k \<Rightarrow> k | None \<Rightarrow> other)"

text \<open>
  \<open>extractLocations\<close>: \<open>path\<close>, else \<open>sourcePath\<close>; then \<open>destinationPath\<close> or
  \<open>destination\<close>; then every entry of the array \<open>files\<close>.
\<close>

definition extractLocations :: "json \<Rightarrow> ToolCallLocation list" where
  "extractLocations ps =
     (if truthy (js_get ps ''path'') then [\<lparr>path = js_get ps ''path''\<rparr>]
      else if truthy (js_get ps ''sourcePath'') then [\<lparr>path = js_get ps ''sourcePath''\<rparr>]
      else [])
     @ (if truthy (js_get ps ''destinationPath'') \<or> truthy (js_get ps ''destination'')
        then [\<lparr>path = js_or (js_get ps ''destinationPath'') (js_get ps ''destination'')\<rparr>]
        else [])
     @ (case js_get ps ''files'' of
          JArr fs \<Rightarrow> map (\<lambda>f. \<lparr>path = f\<rparr>) fs
        | _ \<Rightarrow> [])"

text \<open>The loop of \<open>validateToolParameters\<close> over the required names.\<close>

fun validateRequired :: "string list \<Rightarrow> json \<Rightarrow> string option" where
  "validateRequired [] ps = None"
| "validateRequired (p # rest) ps =
     (if \<not> js_in p ps then Some (''Missing required parameter: '' @ p)
      else if js_get ps p = JNull \<or> js_get ps p = JUndefined
      then Some (''Parameter '' @ p @ '' cannot be null or undefined'')
      else validateRequired rest ps)"

fun is_object :: "json \<Rightarrow> bool" where
  "is_object (JObj kvs) = True"
| "is_object v = False"

text \<open>\<open>tool.parameters.required || []\<close>\<close>

definition requiredOf :: "Tool \<Rightarrow> string list" where
  "requiredOf tool = (case required tool of Some r \<Rightarrow> r | None \<Rightarrow> [])"

definition validateToolParameters :: "Tool \<Rightarrow> json \<Rightarrow> string option" where
  "validateToolParameters tool ps =
     (if ps = JNull \<or> ps = JUndefined then Some ''Parameters are required and must be an object''
      else if \<not> is_object ps then Some ''Parameters must be an object''
      else validateRequired (requiredOf tool) ps)"

text \<open>\<open>${ps[k] || d}\<close> and \<open>${ps[k1] || ps[k2] || d}\<close> inside a template literal.\<close>

definition tpl1 :: "json \<Rightarrow> string \<Rightarrow> string \<Rightarrow> string" where
  "tpl1 ps k d = js_string (js_or (js_get ps k) (JStr d))"

definition tpl2 :: "json \<Rightarrow> string \<Rightarrow> string \<Rightarrow> string \<Rightarrow> string" where
  "tpl2 ps k1 k2 d = js_string (js_or (js_get ps k1) (js_or (js_get ps k2) (JStr d)))"

text \<open>The UTF-8 bytes of the arrow in the title of a move.\<close>

definition arrow :: string where
  "arrow = [CHR 0xE2, CHR 0x86, CHR 0x92]"

definition getToolTitle :: "string \<Rightarrow> json \<Rightarrow> string" where
  "getToolTitle name ps =
    (if name = ''read_file'' then ''Reading file: '' @ tpl1 ps ''path'' ''unknown''
     else if name = ''copy_file'' then ''Copying file: '' @ tpl1 ps ''source'' ''unknown''
     else if name = ''list_directory'' then ''Listing directory: '' @ tpl1 ps ''path'' ''unknown''
     else if name = ''get_file_info'' then ''Getting file info: '' @ tpl1 ps ''path'' ''unknown''
     else if name = ''write_file'' then ''Writing file: '' @ tpl1 ps ''path'' ''unknown''
     else if name = ''append_file'' then ''Appending to file: '' @ tpl1 ps ''path'' ''unknown''
     else if name = ''create_file'' then ''Creating file: '' @ tpl1 ps ''path'' ''unknown''
     else if name = ''patch_file'' then ''Patching file: '' @ tpl1 ps ''path'' ''unknown''
     else if name = ''apply_code_changes''
       then ''Applying ''
            @ show_nat (case js_get ps ''changes'' of JArr cs \<Rightarrow> length cs | _ \<Rightarrow> 0)
            @ '' code changes''
     else if name = ''delete_file'' \<or> name = ''remove_file''
       then ''Deleting file: '' @ tpl1 ps ''path'' ''unknown''
     else if name = ''remove_directory'' then ''Removing directory: '' @ tpl1 ps ''path'' ''unknown''
     else if name = ''move_file'' \<or> name = ''rename_file''
       then ''Moving file: '' @ tpl2 ps ''source'' ''from'' ''unknown'' @ '' '' @ arrow @ '' ''
            @ tpl2 ps ''destination'' ''to'' ''unknown''
     else if name = ''search_codebase'' then ''Searching codebase: '' @ tpl1 ps ''query'' ''unknown''
     else if name = ''search_files'' \<or> name = ''grep''
       then ''Searching for: '' @ tpl2 ps ''pattern'' ''query'' ''unknown''
     else if name = ''find_files'' then ''Finding files: '' @ tpl1 ps ''pattern'' ''unknown''
     else if name = ''find_references'' then ''Finding references: '' @ tpl1 ps ''symbol'' ''unknown''
     else if name = ''find_definitions''
       then ''Finding definitions: '' @ tpl1 ps ''symbol'' ''unknown''
     else if name = ''run_tests'' then ''Running tests: '' @ tpl1 ps ''test_pattern'' ''all''
     else if name = ''run_command'' \<or> name = ''execute_command'' \<or> name = ''shell''
       then ''Running: '' @ tpl1 ps ''command'' ''unknown''
     else if name = ''run_script'' then ''Running script: '' @ tpl1 ps ''script'' ''unknown''
     else if name = ''fetch_url'' \<or> name = ''http_request''
       then ''Fetching: '' @ tpl1 ps ''url'' ''unknown''
     else if name = ''download_file'' then ''Downloading: '' @ tpl1 ps ''url'' ''unknown''
     else if name = ''api_request'' then ''API request: '' @ tpl2 ps ''endpoint'' ''url'' ''unknown''
     else if name = ''web_search'' then ''Web search: '' @ tpl1 ps ''query'' ''unknown''
     else if name = ''think'' \<or> name = ''reason''
       then ''Thinking: '' @ tpl2 ps ''topic'' ''question'' ''reasoning''
     else if name = ''plan'' then ''Planning: '' @ tpl1 ps ''goal'' ''next steps''
     else if name = ''analyze'' \<or> name = ''analyze_code''
       then ''Analyzing: '' @ tpl2 ps ''file_path'' ''target'' ''unknown''
     else if name = ''explain_code'' then ''Explaining code: '' @ tpl1 ps ''file_path'' ''unknown''
     else if name = ''switch_mode'' \<or> name = ''set_mode'' \<or> name = ''change_mode''
       then ''Switching to mode: '' @ tpl2 ps ''mode'' ''mode_id'' ''unknown''
     else if name = ''get_project_info'' then ''Getting project information''
     else ''Executing tool: '' @ name)"

text \<open>
  Modelled from the spec: \<open>ToolCallManager.convertDiffContent\<close>, which the registry calls
  and the manager's source here does not define. The spec (Design notes, diff content
  conversion): each member of the list becomes one ACP \<open>diff\<close> content block.
\<close>

definition convertDiffContent :: "json list \<Rightarrow> ToolCallContent list" where
  "convertDiffContent diffs = map DiffContent diffs"

text \<open>
  What an execution does that can be observed from outside, in order: the notifications
  it sends and the handler invocation with the parameters passed.
\<close>

datatype Event = Sent AcpNotification | Invoked string json

text \<open>
  The environment of one execution: the clock readings (at entry; when the call is
  validated and reported; when the handler has finished), and \<open>whileAwaiting\<close>, what
  other tasks do to the tool-call manager while \<open>await tool.handler(...)\<close> is
  suspended (the identity when nothing else runs).
\<close>

record ExecEnv =
  startedAt :: nat
  reportedAt :: nat
  finishedAt :: nat
  whileAwaiting :: "ToolCallManager \<Rightarrow> AcpNotification list \<times> ToolCallManager"

definition quiet :: "ToolCallManager \<Rightarrow> AcpNotification list \<times> ToolCallManager" where
  "quiet m = ([], m)"

definition baseMetadata :: "string \<Rightarrow> nat \<Rightarrow> nat \<Rightarrow> (string \<times> json) list \<Rightarrow> (string \<times> json) list" where
  "baseMetadata name t0 t md =
     assoc_set ''executedAt'' (JNum (int t))
       (assoc_set ''duration'' (JNum (int t - int t0))
         (assoc_set ''toolName'' (JStr name) md))"

definition withToolCallId :: "string option \<Rightarrow> (string \<times> json) list \<Rightarrow> (string \<times> json) list" where
  "withToolCallId tid md =
     (case tid of Some t \<Rightarrow> (if t \<noteq> [] then assoc_set ''toolCallId'' (JStr t) md else md)
      | None \<Rightarrow> md)"

definition failure :: "string \<Rightarrow> string \<Rightarrow> nat \<Rightarrow> nat \<Rightarrow> string option \<Rightarrow> ToolResult" where
  "failure msg name t0 t tid =
     \<lparr>success = False, result = JUndefined, error = Some msg,
      metadata = withToolCallId tid (baseMetadata name t0 t [])\<rparr>"

text \<open>
  Reporting at the end of an execution that was reported at its start
  (\<open>shouldReportToolCalls && toolCallId\<close>): \<open>completeToolCall\<close> on success, with the
  content of \<open>metadata.diffs\<close> when that is an array, \<open>failToolCall\<close> otherwise; a throw
  goes to \<open>failToolCall\<close> with the thrown message.
\<close>

definition finishReport ::
  "nat \<Rightarrow> string \<Rightarrow> string \<Rightarrow> HandlerOutcome \<Rightarrow> ToolCallManager
     \<Rightarrow> AcpNotification list \<times> ToolCallManager" where
  "finishReport now sid tid outcome m =
     (case outcome of
        Returns r \<Rightarrow>
          (if success r
           then completeToolCall now sid tid
                  \<lparr>co_title = None,
                   co_content = (case map_of (metadata r) ''diffs'' of
                                   Some (JArr ds) \<Rightarrow> Some (convertDiffContent ds)
                                 | _ \<Rightarrow> None),
                   co_rawOutput = (if result r = JUndefined then None else Some (result r))\<rparr> m
           else failToolCall now sid tid
                  \<lparr>fo_title = None,
                   fo_error = (case error r of Some e \<Rightarrow> (if e \<noteq> [] then e else ''Unknown error'')
                               | None \<Rightarrow> ''Unknown error''),
                   fo_rawOutput = (if result r = JUndefined then None else Some (result r))\<rparr> m)
      | Throws msg \<Rightarrow>
          failToolCall now sid tid \<lparr>fo_title = None, fo_error = msg, fo_rawOutput = None\<rparr> m)"

definition finalResult :: "string \<Rightarrow> nat \<Rightarrow> nat \<Rightarrow> string option \<Rightarrow> HandlerOutcome \<Rightarrow> ToolResult" where
  "finalResult name t0 t tid outcome =
     (case outcome of
        Returns r \<Rightarrow> r\<lparr>metadata := withToolCallId tid (baseMetadata name t0 t (metadata r))\<rparr>
      | Throws msg \<Rightarrow> failure msg name t0 t tid)"

text \<open>
  The reporting before the handler runs: \<open>reportToolCall\<close> with status \<open>pending\<close>, then
  \<open>updateToolCall\<close> to \<open>in_progress\<close>. The result is the tool call id, the
  notifications sent and the manager.
\<close>

definition beginReport ::
  "nat \<Rightarrow> string \<Rightarrow> string \<Rightarrow> json \<Rightarrow> ToolCallManager
     \<Rightarrow> string \<times> AcpNotification list \<times> ToolCallManager" where
  "beginReport now session name ps m =
     (let locs = extractLocations ps;
          (tid, ns1, m1) =
            reportToolCall now session name
              \<lparr>ro_title = getToolTitle name ps, ro_kind = getToolKind name,
               ro_status = Some pending, ro_rawInput = Some ps,
               ro_locations = (if locs \<noteq> [] then Some locs else None)\<rparr> m;
          (ns2, m2) = updateToolCall now session tid (noUpdates\<lparr>u_status := Some in_progress\<rparr>) m1
      in (tid, ns1 @ ns2, m2))"

text \<open>
  \<open>executeToolWithSession\<close>. Nothing between the lookup of the tool and the handler call
  throws in this model (validation, kind, title and locations are total, and sending a
  notification does not fail), so the arm of the \<open>catch\<close> clause for a failure before a
  tool call id was issued has no case here.
\<close>

definition executeToolWithSession ::
  "ExecEnv \<Rightarrow> ToolCall \<Rightarrow> string option \<Rightarrow> ToolRegistry
     \<Rightarrow> ToolResult \<times> Event list \<times> ToolRegistry" where
  "executeToolWithSession env call sid reg =
     (let name = call_name call; ps = parameters call
      in case map_of (tools reg) name of
           None \<Rightarrow>
             (failure (''Tool not found: '' @ name) name (startedAt env) (reportedAt env) None,
              [], reg)
         | Some tool \<Rightarrow>
             (case validateToolParameters tool ps of
                Some verr \<Rightarrow>
                  (failure (''Invalid parameters for '' @ name @ '': '' @ verr) name
                     (startedAt env) (reportedAt env) None,
                   [], reg)
              | None \<Rightarrow>
                  (let session = (case sid of Some s \<Rightarrow> s | None \<Rightarrow> []);
                       psWithSession = (if session \<noteq> [] then js_with ps ''_sessionId'' (JStr session)
                                        else ps);
                       outcome = handler tool psWithSession
                   in case toolCallManager reg of
                        None \<Rightarrow>
                          (finalResult name (startedAt env) (finishedAt env) None outcome,
                           [Invoked name psWithSession], reg)
                      | Some m \<Rightarrow>
                          if session = []
                          then (let (ns3, m3) = whileAwaiting env m
                                in (finalResult name (startedAt env) (finishedAt env) None outcome,
                                    Invoked name psWithSession # map Sent ns3,
                                    reg\<lparr>toolCallManager := Some m3\<rparr>))
                          else
                          (let (tid, ns12, m2) = beginReport (reportedAt env) session name ps m;
                               (ns3, m3) = whileAwaiting env m2;
                               (ns4, m4) = finishReport (finishedAt env) session tid outcome m3
                           in (finalResult name (startedAt env) (finishedAt env) (Some tid) outcome,
                               map Sent ns12 @ [Invoked name psWithSession] @ map Sent (ns3 @ ns4),
                               reg\<lparr>toolCallManager := Some m4\<rparr>)))))"

text \<open>\<open>executeTool\<close>: the same without a session id.\<close>

definition executeTool :: "ExecEnv \<Rightarrow> ToolCall \<Rightarrow> ToolRegistry \<Rightarrow> ToolResult \<times> Event list \<times> ToolRegistry" where
  "executeTool env call reg = executeToolWithSession env call None reg"

section \<open>Terminal utilities (src/tools/terminal-utils.ts)\<close>

record ExitStatus =
  exitCode :: "int option"
  signal :: "string option"

record TerminalOutput =
  to_output :: string
  to_truncated :: bool

record SimpleCommandResult =
  sr_output :: string
  sr_exitCode :: "int option"
  sr_signal :: "string option"
  sr_truncated :: bool

record ExecuteWithProgressOptions =
  po_title :: "string option"
  po_cwd :: "string option"
  po_pollIntervalMs :: "int option"

text \<open>
  The terminal manager and the client's terminal handle are outside these sources. What
  their calls give is a parameter: \<open>Inl\<close> is the message of the error the call throws.
  \<open>created\<close> is \<open>createTerminal\<close> (the terminal id), \<open>exited\<close> is \<open>waitForExit\<close>,
  \<open>finalOutput\<close> the \<open>currentOutput\<close> after the exit and \<open>errorOutput\<close> the one in the
  \<open>catch\<close> clause.
\<close>

record TerminalRun =
  created :: "string + string"
  exited :: "string + ExitStatus"
  finalOutput :: "string + TerminalOutput"
  errorOutput :: "string + TerminalOutput"

text \<open>
  Modelled from the spec: \<open>ToolCallManager.createTerminalContent\<close>, called here and not
  defined in the manager's source. The spec (4.7): the tool call embeds a \<open>terminal\<close>
  content pointer referencing the terminal id.
\<close>

definition createTerminalContent :: "string \<Rightarrow> ToolCallContent list" where
  "createTerminalContent terminalId = [TerminalContent terminalId]"

definition check_mark :: string where
  "check_mark = [CHR 0xE2, CHR 0x9C, CHR 0x93]"

definition cross_mark :: string where
  "cross_mark = [CHR 0xE2, CHR 0x9C, CHR 0x97]"

definition opt_json :: "('a \<Rightarrow> json) \<Rightarrow> 'a option \<Rightarrow> json" where
  "opt_json f v = (case v of Some x \<Rightarrow> f x | None \<Rightarrow> JUndefined)"

text \<open>\<open>${exitStatus.exitCode ?? 'unknown'}\<close>\<close>

definition codeText :: "int option \<Rightarrow> string" where
  "codeText c = (case c of Some n \<Rightarrow> show_int n | None \<Rightarrow> ''unknown'')"

text \<open>
  The body of the \<open>try\<close> block of \<open>executeWithProgress\<close>, once the terminal exists:
  \<open>Inl\<close> is a throw inside the block.
\<close>

definition progressBody ::
  "TerminalRun \<Rightarrow> nat \<Rightarrow> nat \<Rightarrow> string \<Rightarrow> string \<Rightarrow> string \<Rightarrow> string list
     \<Rightarrow> ExecuteWithProgressOptions \<Rightarrow> ToolCallManager
     \<Rightarrow> (string + SimpleCommandResult) \<times> AcpNotification list \<times> ToolCallManager" where
  "progressBody run t1 t2 terminalId sid command args opts m =
     (let (tid, ns1, m1) =
            reportToolCall t1 sid ''execute_command''
              \<lparr>ro_title = (case po_title opts of Some t \<Rightarrow> t
                            | None \<Rightarrow> ''$ '' @ command @ '' '' @ join_with '' '' args),
               ro_kind = edit,
               ro_status = Some in_progress,
               ro_rawInput = Some (JObj [(''command'', JStr command),
                                         (''args'', JArr (map JStr args)),
                                         (''cwd'', opt_json JStr (po_cwd opts))]),
               ro_locations = None\<rparr> m;
          terminalContent = createTerminalContent terminalId;
          (ns2, m2) = updateToolCall t1 sid tid (noUpdates\<lparr>u_content := Some terminalContent\<rparr>) m1
      in case exited run of
           Inl e \<Rightarrow> (Inl e, ns1 @ ns2, m2)
         | Inr exitStatus \<Rightarrow>
             (case finalOutput run of
                Inl e \<Rightarrow> (Inl e, ns1 @ ns2, m2)
              | Inr out \<Rightarrow>
                  (let (ns3, m3) =
                         (if exitCode exitStatus = Some 0
                          then completeToolCall t2 sid tid
                                 \<lparr>co_title = Some (check_mark @ '' Command completed successfully''),
                                  co_content = Some terminalContent,
                                  co_rawOutput =
                                    Some (JObj [(''exitCode'', opt_json JNum (exitCode exitStatus)),
                                                (''outputLength'', JNum (int (length (to_output out)))),
                                                (''truncated'', JBool (to_truncated out))])\<rparr> m2
                          else failToolCall t2 sid tid
                                 \<lparr>fo_title = Some (cross_mark @ '' Command failed (exit code ''
                                                   @ codeText (exitCode exitStatus) @ '')''),
                                  fo_error = ''Command exited with code ''
                                             @ codeText (exitCode exitStatus)
                                             @ (case signal exitStatus of
                                                  Some sg \<Rightarrow> (if sg \<noteq> []
                                                              then '' (signal: '' @ sg @ '')'' else [])
                                                | None \<Rightarrow> []),
                                  fo_rawOutput =
                                    Some (JObj [(''exitCode'', opt_json JNum (exitCode exitStatus)),
                                                (''signal'', opt_json JStr (signal exitStatus)),
                                                (''outputLength'', JNum (int (length (to_output out)))),
                                                (''truncated'', JBool (to_truncated out))])\<rparr> m2)
                   in (Inr \<lparr>sr_output = to_output out, sr_exitCode = exitCode exitStatus,
                            sr_signal = signal exitStatus, sr_truncated = to_truncated out\<rparr>,
                       ns1 @ ns2 @ ns3, m3))))"

text \<open>
  \<open>executeWithProgress\<close>: a failing \<open>createTerminal\<close> propagates; a throw inside the
  \<open>try\<close> block becomes a \<open>ToolError\<close> whose message carries the output read in the
  \<open>catch\<close> clause. \<open>t1\<close> and \<open>t2\<close> are the clock readings at the report and at the exit.
\<close>

definition executeWithProgress ::
  "TerminalRun \<Rightarrow> nat \<Rightarrow> nat \<Rightarrow> ToolCallManager \<Rightarrow> string \<Rightarrow> string \<Rightarrow> string list
     \<Rightarrow> ExecuteWithProgressOptions
     \<Rightarrow> (string + SimpleCommandResult) \<times> AcpNotification list \<times> ToolCallManager" where
  "executeWithProgress run t1 t2 m sid command args opts =
     (case created run of
        Inl e \<Rightarrow> (Inl e, [], m)
      | Inr terminalId \<Rightarrow>
          (case progressBody run t1 t2 terminalId sid command args opts m of
             (Inr r, ns, m') \<Rightarrow> (Inr r, ns, m')
           | (Inl e, ns, m') \<Rightarrow>
               (let errOut = (case errorOutput run of Inr out \<Rightarrow> to_output out | Inl x \<Rightarrow> [])
                in (Inl (''Terminal command failed: '' @ e
                         @ (if errOut \<noteq> [] then [CHR 0x0A, CHR 0x0A] @ ''Output:'' @ [CHR 0x0A] @ errOut
                            else [])),
                    ns, m'))))"

section \<open>Filesystem tool provider (src/tools/filesystem.ts)\<close>

text \<open>
  A thrown value: an \<open>AcpFileSystemError\<close>, another \<open>Error\<close> (both with their message),
  or a value that is no \<open>Error\<close>.
\<close>

datatype JsError = AcpFileSystemError string | Error string | Thrown json

record FileSystemConfig =
  enabled :: bool
  retries :: "int option"
  retryDelay :: "int option"
  enableMetrics :: "bool option"

text \<open>
  What the provider does to the outside: calls of the client's \<open>readTextFile\<close> and
  \<open>writeTextFile\<close> with their arguments, and \<open>delay(ms)\<close>.
\<close>

datatype FsEffect =
    ReadTextFile string string json json
  | WriteTextFile string string string
  | Delay int

text \<open>
  The file system client is a parameter: the outcome of its \<open>k\<close>-th call (from 0),
  \<open>Inl\<close> the error it rejects with, \<open>Inr\<close> the content read (ignored for a write).
  The world counts the calls made and records the effects in order.
\<close>

record FsWorld =
  clientCalls :: nat
  effects :: "FsEffect list"

definition newFsWorld :: FsWorld where
  "newFsWorld = \<lparr>clientCalls = 0, effects = []\<rparr>"

definition isValidationError :: "JsError \<Rightarrow> bool" where
  "isValidationError e =
     (case e of
        AcpFileSystemError msg \<Rightarrow> True
      | Error msg \<Rightarrow> str_includes msg ''is required'' \<or> str_includes msg ''must be''
                      \<or> str_includes msg ''invalid''
      | Thrown v \<Rightarrow> False)"

definition isFileNotFoundError :: "JsError \<Rightarrow> bool" where
  "isFileNotFoundError e =
     (case e of
        Thrown v \<Rightarrow> False
      | AcpFileSystemError msg \<Rightarrow> str_includes msg ''not found'' \<or> str_includes msg ''does not exist''
                                   \<or> str_includes msg ''ENOENT''
      | Error msg \<Rightarrow> str_includes msg ''not found'' \<or> str_includes msg ''does not exist''
                      \<or> str_includes msg ''ENOENT'')"

definition isPermissionError :: "JsError \<Rightarrow> bool" where
  "isPermissionError e =
     (case e of
        Thrown v \<Rightarrow> False
      | AcpFileSystemError msg \<Rightarrow> str_includes msg ''permission denied''
                                   \<or> str_includes msg ''access denied''
                                   \<or> str_includes msg ''EACCES'' \<or> str_includes msg ''EPERM''
      | Error msg \<Rightarrow> str_includes msg ''permission denied'' \<or> str_includes msg ''access denied''
                      \<or> str_includes msg ''EACCES'' \<or> str_includes msg ''EPERM'')"

text \<open>
  The \<open>error\<close> string of the failure result built in the \<open>catch\<close> clause of a single
  attempt: the message of \<open>enhanceFileSystemError\<close> for an \<open>Error\<close>, else
  \<open>String(error)\<close>.
\<close>

definition attemptErrorText :: "string \<Rightarrow> json \<Rightarrow> JsError \<Rightarrow> string" where
  "attemptErrorText operation p e =
     (case e of
        AcpFileSystemError msg \<Rightarrow>
          ''File system '' @ operation @ '' operation failed for '' @ [CHR 0x27] @ js_string p
            @ [CHR 0x27] @ '': '' @ msg
      | Error msg \<Rightarrow>
          ''File system '' @ operation @ '' operation failed for '' @ [CHR 0x27] @ js_string p
            @ [CHR 0x27] @ '': '' @ msg
      | Thrown v \<Rightarrow> js_string v)"

fun is_string :: "json \<Rightarrow> bool" where
  "is_string (JStr s) = True"
| "is_string v = False"

text \<open>\<open>v !== undefined && (typeof v !== 'number' || v < 1)\<close>\<close>

fun bad_positive :: "json \<Rightarrow> bool" where
  "bad_positive JUndefined = False"
| "bad_positive (JNum n) = (n < 1)"
| "bad_positive v = True"

text \<open>\<open>s.split('\n').length\<close>\<close>

definition lineCount :: "string \<Rightarrow> nat" where
  "lineCount s = length (filter (\<lambda>c. c = CHR 0x0A) s) + 1"

text \<open>\<open>...(v !== undefined && {key: v})\<close> in an object literal.\<close>

definition when_defined :: "string \<Rightarrow> json \<Rightarrow> (string \<times> json) list" where
  "when_defined k v = (if v = JUndefined then [] else [(k, v)])"

text \<open>
  The body of the \<open>try\<close> block of \<open>_readFileOnce\<close>: \<open>Inl\<close> is a throw inside the
  block. \<open>opId\<close> is the operation id drawn when metrics are enabled.
\<close>

definition readFileBody ::
  "(nat \<Rightarrow> JsError + string) \<Rightarrow> string option \<Rightarrow> json \<Rightarrow> FsWorld
     \<Rightarrow> (JsError + ToolResult) \<times> FsWorld" where
  "readFileBody client opId ps w =
     (let sid = js_get ps ''_sessionId''; p = js_get ps ''path'';
          line = js_get ps ''line''; limit = js_get ps ''limit''
      in if \<not> truthy sid
         then (Inl (AcpFileSystemError
                 (''Session ID is required for ACP file operations. ''
                  @ ''This is an internal error - please report it.'')), w)
         else if \<not> truthy p \<or> \<not> is_string p
         then (Inl (AcpFileSystemError
                 ''Valid file path is required. Path must be a non-empty string.''), w)
         else if bad_positive line
         then (Inl (AcpFileSystemError ''Line number must be a positive integer (1-based)''), w)
         else if bad_positive limit
         then (Inl (AcpFileSystemError ''Limit must be a positive integer''), w)
         else
           (let w1 = w\<lparr>clientCalls := clientCalls w + 1,
                        effects := effects w @ [ReadTextFile (js_string sid) (js_string p) line limit]\<rparr>
            in case client (clientCalls w) of
                 Inl e \<Rightarrow> (Inl e, w1)
               | Inr text \<Rightarrow>
                   (Inr \<lparr>success = True,
                         result = JObj [(''path'', p), (''content'', JStr text),
                                        (''_meta'',
                                         JObj ([(''contentLength'', JNum (int (length text))),
                                                (''lineCount'', JNum (int (lineCount text)))]
                                               @ when_defined ''startLine'' line
                                               @ when_defined ''maxLines'' limit
                                               @ [(''source'', JStr ''acp-client''),
                                                  (''includesUnsavedChanges'', JBool True),
                                                  (''acpMethod'', JStr ''fs/read_text_file''),
                                                  (''sessionId'', sid)]
                                               @ (case opId of Some i \<Rightarrow> [(''operationId'', JStr i)]
                                                  | None \<Rightarrow> [])))],
                         error = None, metadata = []\<rparr>, w1)))"

text \<open>
  \<open>_readFileOnce\<close>: the \<open>try\<close> block, and the \<open>catch\<close> clause that turns whatever the
  block throws into a returned failure result. The type keeps the possibility of a throw,
  which the retry loop around it handles.
\<close>

definition readFileOnce ::
  "(nat \<Rightarrow> JsError + string) \<Rightarrow> string option \<Rightarrow> json \<Rightarrow> FsWorld
     \<Rightarrow> (JsError + ToolResult) \<times> FsWorld" where
  "readFileOnce client opId ps w =
     (case readFileBody client opId ps w of
        (Inr r, w') \<Rightarrow> (Inr r, w')
      | (Inl e, w') \<Rightarrow>
          (Inr \<lparr>success = False, result = JUndefined,
                error = Some (attemptErrorText ''read'' (js_get ps ''path'') e),
                metadata = []\<rparr>, w'))"

definition writeFileBody ::
  "(nat \<Rightarrow> JsError + string) \<Rightarrow> string option \<Rightarrow> json \<Rightarrow> FsWorld
     \<Rightarrow> (JsError + ToolResult) \<times> FsWorld" where
  "writeFileBody client opId ps w =
     (let sid = js_get ps ''_sessionId''; p = js_get ps ''path''; c = js_get ps ''content''
      in if \<not> truthy sid
         then (Inl (AcpFileSystemError
                 (''Session ID is required for ACP file operations. ''
                  @ ''This is an internal error - please report it.'')), w)
         else if \<not> truthy p \<or> \<not> is_string p
         then (Inl (AcpFileSystemError
                 ''Valid file path is required. Path must be a non-empty string.''), w)
         else if c = JUndefined \<or> c = JNull
         then (Inl (AcpFileSystemError
                 ''Content is required. To create an empty file, pass an empty string.''), w)
         else
           (let text = js_string c;
                w1 = w\<lparr>clientCalls := clientCalls w + 1,
                        effects := effects w @ [WriteTextFile (js_string sid) (js_string p) text]\<rparr>
            in case client (clientCalls w) of
                 Inl e \<Rightarrow> (Inl e, w1)
               | Inr x \<Rightarrow>
                   (Inr \<lparr>success = True,
                         result = JObj [(''path'', p), (''written'', JBool True),
                                        (''_meta'',
                                         JObj ([(''contentLength'', JNum (int (length text))),
                                                (''lineCount'', JNum (int (lineCount text))),
                                                (''source'', JStr ''acp-client''),
                                                (''acpMethod'', JStr ''fs/write_text_file''),
                                                (''sessionId'', sid)]
                                               @ (case opId of Some i \<Rightarrow> [(''operationId'', JStr i)]
                                                  | None \<Rightarrow> [])))],
                         error = None, metadata = []\<rparr>, w1)))"

definition writeFileOnce ::
  "(nat \<Rightarrow> JsError + string) \<Rightarrow> string option \<Rightarrow> json \<Rightarrow> FsWorld
     \<Rightarrow> (JsError + ToolResult) \<times> FsWorld" where
  "writeFileOnce client opId ps w =
     (case writeFileBody client opId ps w of
        (Inr r, w') \<Rightarrow> (Inr r, w')
      | (Inl e, w') \<Rightarrow>
          (Inr \<lparr>success = False, result = JUndefined,
                error = Some (attemptErrorText ''write'' (js_get ps ''path'') e),
                metadata = []\<rparr>, w'))"

definition maxRetriesOf :: "FileSystemConfig \<Rightarrow> int" where
  "maxRetriesOf cfg = (case retries cfg of Some r \<Rightarrow> r | None \<Rightarrow> 3)"

definition retryDelayOf :: "FileSystemConfig \<Rightarrow> int" where
  "retryDelayOf cfg = (case retryDelay cfg of Some d \<Rightarrow> d | None \<Rightarrow> 1000)"

definition delay :: "int \<Rightarrow> FsWorld \<Rightarrow> FsWorld" where
  "delay ms w = w\<lparr>effects := effects w @ [Delay ms]\<rparr>"

text \<open>
  The retry loop of \<open>readFile\<close>, from attempt \<open>attempt\<close> on: \<open>Inl\<close> is the value the
  call throws. After the loop \<open>throw lastError!\<close> throws the last error, \<open>undefined\<close>
  when there was none.
\<close>

function readFileFrom ::
  "FileSystemConfig \<Rightarrow> (nat \<Rightarrow> JsError + string) \<Rightarrow> string option \<Rightarrow> json \<Rightarrow> nat
     \<Rightarrow> JsError option \<Rightarrow> FsWorld \<Rightarrow> (JsError + ToolResult) \<times> FsWorld" where
  "readFileFrom cfg client opId ps attempt lastError w =
     (if int attempt \<le> maxRetriesOf cfg
      then (let w0 = (if attempt > 0 then delay (retryDelayOf cfg * int attempt) w else w)
            in case readFileOnce client opId ps w0 of
                 (Inr r, w1) \<Rightarrow> (Inr r, w1)
               | (Inl e, w1) \<Rightarrow>
                   (if isValidationError e then (Inl e, w1)
                    else if isFileNotFoundError e then (Inl e, w1)
                    else if isPermissionError e then (Inl e, w1)
                    else if int attempt = maxRetriesOf cfg then (Inl e, w1)
                    else readFileFrom cfg client opId ps (attempt + 1) (Some e) w1))
      else (Inl (case lastError of Some e \<Rightarrow> e | None \<Rightarrow> Thrown JUndefined), w))"
  by pat_completeness auto
termination
  by (relation "measure (\<lambda>(cfg, client, opId, ps, attempt, lastError, w).
                           nat (maxRetriesOf cfg + 1 - int attempt))") auto

definition readFile ::
  "FileSystemConfig \<Rightarrow> (nat \<Rightarrow> JsError + string) \<Rightarrow> string option \<Rightarrow> json \<Rightarrow> FsWorld
     \<Rightarrow> (JsError + ToolResult) \<times> FsWorld" where
  "readFile cfg client opId ps w = readFileFrom cfg client opId ps 0 None w"

function writeFileFrom ::
  "FileSystemConfig \<Rightarrow> (nat \<Rightarrow> JsError + string) \<Rightarrow> string option \<Rightarrow> json \<Rightarrow> nat
     \<Rightarrow> JsError option \<Rightarrow> FsWorld \<Rightarrow> (JsError + ToolResult) \<times> FsWorld" where
  "writeFileFrom cfg client opId ps attempt lastError w =
     (if int attempt \<le> maxRetriesOf cfg
      then (let w0 = (if attempt > 0 then delay (retryDelayOf cfg * int attempt) w else w)
            in case writeFileOnce client opId ps w0 of
                 (Inr r, w1) \<Rightarrow> (Inr r, w1)
               | (Inl e, w1) \<Rightarrow>
                   (if isValidationError e then (Inl e, w1)
                    else if isPermissionError e then (Inl e, w1)
                    else if int attempt = maxRetriesOf cfg then (Inl e, w1)
                    else writeFileFrom cfg client opId ps (attempt + 1) (Some e) w1))
      else (Inl (case lastError of Some e \<Rightarrow> e | None \<Rightarrow> Thrown JUndefined), w))"
  by pat_completeness auto
termination
  by (relation "measure (\<lambda>(cfg, client, opId, ps, attempt, lastError, w).
                           nat (maxRetriesOf cfg + 1 - int attempt))") auto

definition writeFile ::
  "FileSystemConfig \<Rightarrow> (nat \<Rightarrow> JsError + string) \<Rightarrow> string option \<Rightarrow> json \<Rightarrow> FsWorld
     \<Rightarrow> (JsError + ToolResult) \<times> FsWorld" where
  "writeFile cfg client opId ps w = writeFileFrom cfg client opId ps 0 None w"

section \<open>HTTP stream adapter (src/transport/http-stream.ts)\<close>

text \<open>
  The calls made on the \<open>ServerResponse\<close>: \<open>writeHead(status, headers)\<close> and
  \<open>end(body?)\<close>.
\<close>

datatype ResOp = WriteHead nat "(string \<times> string) list" | End "string option"

text \<open>
  The variables closed over by the writable side, and the calls made on \<open>res\<close> so far.
  \<open>responseBuffer\<close> is \<open>null\<close> until a message is buffered.
\<close>

record HttpStreamState =
  responseBuffer :: json
  responseWritten :: bool
  res :: "ResOp list"

definition httpToStream :: HttpStreamState where
  "httpToStream = \<lparr>responseBuffer = JNull, responseWritten = False, res = []\<rparr>"

definition multipleWritesMessage :: string where
  "multipleWritesMessage =
     ''HTTP stream does not support multiple writes. ''
     @ ''Each HTTP request can only send one response message. ''
     @ ''Previous message would be silently discarded.''"

text \<open>\<open>write(message)\<close> of the sink: \<open>Inl\<close> is the message of the error it throws.\<close>

definition sink_write :: "json \<Rightarrow> HttpStreamState \<Rightarrow> string + HttpStreamState" where
  "sink_write message st =
     (if responseBuffer st \<noteq> JNull then Inl multipleWritesMessage
      else Inr (st\<lparr>responseBuffer := message\<rparr>))"

definition errorEnvelope :: "string \<Rightarrow> string \<Rightarrow> json" where
  "errorEnvelope msg detail =
     JObj [(''jsonrpc'', JStr ''2.0''), (''id'', JNull),
           (''error'', JObj [(''code'', JNum (- 32603)), (''message'', JStr msg),
                             (''data'', JStr detail)])]"

text \<open>
  \<open>JSON.stringify\<close> is a parameter: \<open>Inr\<close> the text, \<open>Inl\<close> the message of the error
  it throws. \<open>respond500\<close> is the error response of \<open>close\<close> and \<open>abort\<close>; a failing
  serialisation of its envelope throws out of the call.
\<close>

definition respond500 ::
  "(json \<Rightarrow> string + string) \<Rightarrow> string \<Rightarrow> string \<Rightarrow> HttpStreamState \<Rightarrow> string + HttpStreamState" where
  "respond500 stringify msg detail st =
     (case stringify (errorEnvelope msg detail) of
        Inl e \<Rightarrow> Inl e
      | Inr body \<Rightarrow>
          Inr (st\<lparr>res := res st @ [WriteHead 500 [(''Content-Type'', ''application/json'')],
                                    End (Some body)],
                  responseWritten := True\<rparr>))"

text \<open>
  The headers of the 200 response; \<open>Buffer.byteLength\<close> is the length of the body, a
  string of bytes here.
\<close>

definition okHeaders :: "string \<Rightarrow> (string \<times> string) list" where
  "okHeaders body =
     [(''Content-Type'', ''application/json''),
      (''Content-Length'', show_nat (length body)),
      (''Access-Control-Allow-Origin'', ''*'')]"

definition sink_close :: "(json \<Rightarrow> string + string) \<Rightarrow> HttpStreamState \<Rightarrow> string + HttpStreamState" where
  "sink_close stringify st =
     (if truthy (responseBuffer st) \<and> \<not> responseWritten st
      then (case stringify (responseBuffer st) of
              Inr responseBody \<Rightarrow>
                Inr (st\<lparr>res := res st @
                            [WriteHead 200 (okHeaders responseBody), End (Some responseBody)],
                        responseWritten := True\<rparr>)
            | Inl e \<Rightarrow> respond500 stringify ''Internal error'' e st)
      else if \<not> responseWritten st
      then Inr (st\<lparr>res := res st @ [WriteHead 204 [], End None], responseWritten := True\<rparr>)
      else Inr st)"

definition sink_abort ::
  "(json \<Rightarrow> string + string) \<Rightarrow> string \<Rightarrow> HttpStreamState \<Rightarrow> string + HttpStreamState" where
  "sink_abort stringify detail st =
     (if \<not> responseWritten st then respond500 stringify ''Connection aborted'' detail st
      else Inr st)"

subsection \<open>The stream around the sink\<close>

text \<open>
  The sink is handed to the platform's \<open>WritableStream\<close>, and only the stream calls its
  functions. What follows is the stream of the Streams Standard, as far as a caller needs
  it who awaits each call before making the next (no chunk is queued and no operation is in
  flight when a call starts):
  \<^item> \<open>write\<close> on a writable stream calls the sink's \<open>write\<close>. When that throws, the promise
    of the call is rejected with the error, the controller drops the sink's functions and
    the stream becomes errored with the error stored
    (WritableStreamDefaultControllerProcessWrite, WritableStreamFinishInFlightWriteWithError,
    WritableStreamFinishErroring). No abort was requested, so the sink's \<open>abort\<close> is not
    called.
  \<^item> \<open>close\<close> on a writable stream calls the sink's \<open>close\<close> and closes the stream; a throw
    of the sink errors the stream. \<open>abort\<close> on a writable stream errors the stream with the
    reason and calls the sink's \<open>abort\<close>.
  \<^item> On an errored stream \<open>write\<close> is rejected with the stored error, \<open>close\<close> with a
    \<open>TypeError\<close>, and \<open>abort\<close> is fulfilled; on a closed stream \<open>write\<close> and \<open>close\<close> are
    rejected with a \<open>TypeError\<close> and \<open>abort\<close> is fulfilled (WritableStreamDefaultWriterWrite,
    WritableStreamClose, WritableStreamAbort). None of these calls the sink.
\<close>

datatype Rejection = Reason string | TypeError

datatype Settled = Fulfilled | Rejected Rejection

datatype StreamState = Writable | Errored Rejection | Closed

record WritableStream =
  ws_state :: StreamState
  ws_sink :: HttpStreamState

text \<open>\<open>new WritableStream({write, close, abort})\<close> of \<open>httpToStream\<close>.\<close>

definition writable :: WritableStream where
  "writable = \<lparr>ws_state = Writable, ws_sink = httpToStream\<rparr>"

definition stream_write :: "json \<Rightarrow> WritableStream \<Rightarrow> Settled \<times> WritableStream" where
  "stream_write chunk s =
     (case ws_state s of
        Writable \<Rightarrow>
          (case sink_write chunk (ws_sink s) of
             Inr k \<Rightarrow> (Fulfilled, s\<lparr>ws_sink := k\<rparr>)
           | Inl e \<Rightarrow> (Rejected (Reason e), s\<lparr>ws_state := Errored (Reason e)\<rparr>))
      | Errored e \<Rightarrow> (Rejected e, s)
      | Closed \<Rightarrow> (Rejected TypeError, s))"

definition stream_close ::
  "(json \<Rightarrow> string + string) \<Rightarrow> WritableStream \<Rightarrow> Settled \<times> WritableStream" where
  "stream_close stringify s =
     (case ws_state s of
        Writable \<Rightarrow>
          (case sink_close stringify (ws_sink s) of
             Inr k \<Rightarrow> (Fulfilled, s\<lparr>ws_state := Closed, ws_sink := k\<rparr>)
           | Inl e \<Rightarrow> (Rejected (Reason e), s\<lparr>ws_state := Errored (Reason e)\<rparr>))
      | Errored e \<Rightarrow> (Rejected TypeError, s)
      | Closed \<Rightarrow> (Rejected TypeError, s))"

definition stream_abort ::
  "(json \<Rightarrow> string + string) \<Rightarrow> string \<Rightarrow> WritableStream \<Rightarrow> Settled \<times> WritableStream" where
  "stream_abort stringify reason s =
     (case ws_state s of
        Writable \<Rightarrow>
          (case sink_abort stringify reason (ws_sink s) of
             Inr k \<Rightarrow> (Fulfilled, s\<lparr>ws_state := Errored (Reason reason), ws_sink := k\<rparr>)
           | Inl e \<Rightarrow> (Rejected (Reason e), s\<lparr>ws_state := Errored (Reason reason)\<rparr>))
      | Errored e \<Rightarrow> (Fulfilled, s)
      | Closed \<Rightarrow> (Fulfilled, s))"

text \<open>A caller's calls on the stream, each awaited before the next.\<close>

datatype StreamCall = Write json | Close | Abort string

fun stream_call ::
  "(json \<Rightarrow> string + string) \<Rightarrow> StreamCall \<Rightarrow> WritableStream \<Rightarrow> Settled \<times> WritableStream" where
  "stream_call stringify (Write chunk) s = stream_write chunk s"
| "stream_call stringify Close s = stream_close stringify s"
| "stream_call stringify (Abort reason) s = stream_abort stringify reason s"

fun stream_calls :: "(json \<Rightarrow> string + string) \<Rightarrow> StreamCall list \<Rightarrow> WritableStream \<Rightarrow> WritableStream" where
  "stream_calls stringify [] s = s"
| "stream_calls stringify (c # cs) s = stream_calls stringify cs (snd (stream_call stringify c s))"

section \<open>Session modes\<close>

datatype PermissionBehavior = strict | permissive | auto_approve

record SessionModeConfig =
  permissionBehavior :: PermissionBehavior
  availableTools :: "string list option"

text \<open>
  Modelled from the spec: the mode catalog of \<open>SessionManager\<close> (src/session/manager.ts),
  of which only the tests are among the sources. The spec (4.9): \<open>ask\<close> (strict, no
  declared tools), \<open>plan\<close> (strict, \<open>[filesystem]\<close>), \<open>agent\<close> (strict,
  \<open>[filesystem, terminal]\<close>).
\<close>

definition modeCatalog :: "(string \<times> SessionModeConfig) list" where
  "modeCatalog =
     [(''ask'', \<lparr>permissionBehavior = strict, availableTools = None\<rparr>),
      (''plan'', \<lparr>permissionBehavior = strict, availableTools = Some [''filesystem'']\<rparr>),
      (''agent'', \<lparr>permissionBehavior = strict,
                   availableTools = Some [''filesystem'', ''terminal'']\<rparr>)]"

definition getAvailableModes :: "string list" where
  "getAvailableModes = map fst modeCatalog"

definition getModeConfig :: "string \<Rightarrow> SessionModeConfig option" where
  "getModeConfig modeId = map_of modeCatalog modeId"

text \<open>The tools a mode declares: none when the mode has no configuration or no list.\<close>

definition declaredTools :: "string \<Rightarrow> string list" where
  "declaredTools modeId =
     (case getModeConfig modeId of
        None \<Rightarrow> []
      | Some cfg \<Rightarrow> (case availableTools cfg of None \<Rightarrow> [] | Some ts \<Rightarrow> ts))"

section \<open>Connection pool (src/transport/connection-pool.ts)\<close>

record 'c PooledConnection =
  conn_id :: string
  connection :: 'c
  createdAt :: nat
  lastUsedAt :: nat
  inUse :: bool
  requestCount :: nat

record ConnectionPoolConfig =
  maxConnections :: int
  maxIdleTime :: int
  acquireTimeout :: int
  metricsEnabled :: bool

text \<open>
  The metrics, without \<open>averageWaitTime\<close>: a floating-point moving average that no other
  field depends on.
\<close>

record ConnectionPoolMetrics =
  totalCreated :: nat
  totalDestroyed :: nat
  activeConnections :: int
  idleConnections :: int
  totalRequests :: nat
  waitingRequests :: int
  peakConnections :: nat

text \<open>
  \<open>acquire\<close> is an \<open>async\<close> function: a call runs until it awaits the factory or a
  free connection, and goes on when the awaited promise is settled. Other calls on the
  pool run in between. A suspended call is named by a ticket chosen by the caller and is
  in one of these states: awaiting \<open>factory()\<close> inside \<open>createConnection\<close>, with the
  connection id already drawn; \<open>createConnection\<close> has returned and the continuation of
  \<open>acquire\<close> is due; parked in \<open>waitForConnection\<close>; handed a connection by
  \<open>serveWaitingRequest\<close>, the continuation of \<open>acquire\<close> due.
\<close>

datatype Suspended =
    AwaitingFactory string
  | FactoryDone string
  | Parked
  | Handed string

text \<open>
  \<open>connections\<close> is a JavaScript \<open>Map\<close>. An entry of \<open>waitingQueue\<close> is (ticket of the
  waiting call, \<open>requestedAt\<close>). \<open>cleanupInterval\<close> tells whether the reaper's timer is set.
\<close>

record 'c ConnectionPool =
  config :: ConnectionPoolConfig
  connections :: "(string \<times> 'c PooledConnection) list"
  waitingQueue :: "(nat \<times> nat) list"
  metrics :: ConnectionPoolMetrics
  cleanupInterval :: bool
  nextConnectionId :: nat
  suspended :: "(nat \<times> Suspended) list"

definition newConnectionPool :: "ConnectionPoolConfig \<Rightarrow> 'c ConnectionPool" where
  "newConnectionPool cfg =
     \<lparr>config = cfg, connections = [], waitingQueue = [],
      metrics = \<lparr>totalCreated = 0, totalDestroyed = 0, activeConnections = 0,
                 idleConnections = 0, totalRequests = 0, waitingRequests = 0,
                 peakConnections = 0\<rparr>,
      cleanupInterval = True, nextConnectionId = 0, suspended = []\<rparr>"

definition getIdleConnection :: "'c ConnectionPool \<Rightarrow> 'c PooledConnection option" where
  "getIdleConnection p = find (\<lambda>c. \<not> inUse c) (map snd (connections p))"

text \<open>
  \<open>markInUse\<close> works on the connection object: when the object is no longer in the map,
  only the metrics change.
\<close>

definition markInUse :: "string \<Rightarrow> nat \<Rightarrow> 'c ConnectionPool \<Rightarrow> 'c ConnectionPool" where
  "markInUse cid now p =
     p\<lparr>connections :=
         map (\<lambda>(k, c). if k = cid then (k, c\<lparr>inUse := True, lastUsedAt := now\<rparr>) else (k, c))
             (connections p),
       metrics := (metrics p)\<lparr>activeConnections := activeConnections (metrics p) + 1,
                               idleConnections := idleConnections (metrics p) - 1\<rparr>\<rparr>"

definition waitingDone :: "'c ConnectionPool \<Rightarrow> 'c ConnectionPool" where
  "waitingDone p =
     p\<lparr>metrics := (metrics p)\<lparr>waitingRequests := waitingRequests (metrics p) - 1\<rparr>\<rparr>"

definition connectionName :: "nat \<Rightarrow> string" where
  "connectionName n = ''conn-'' @ show_nat n"

text \<open>
  A call of \<open>acquire\<close>, up to its return or its first suspension: an idle connection is
  taken at once; else, below the limit, \<open>createConnection\<close> draws the next id and awaits
  the factory; else the call parks in the waiting queue.
\<close>

definition acquireStart :: "nat \<Rightarrow> nat \<Rightarrow> 'c ConnectionPool \<Rightarrow> 'c ConnectionPool" where
  "acquireStart ticket now p =
     (let p1 = p\<lparr>metrics := (metrics p)\<lparr>totalRequests := totalRequests (metrics p) + 1,
                                           waitingRequests := waitingRequests (metrics p) + 1\<rparr>\<rparr>
      in case getIdleConnection p1 of
           Some c \<Rightarrow> waitingDone (markInUse (conn_id c) now p1)
         | None \<Rightarrow>
             if int (length (connections p1)) < maxConnections (config p1)
             then p1\<lparr>nextConnectionId := nextConnectionId p1 + 1,
                     suspended := suspended p1 @
                       [(ticket, AwaitingFactory (connectionName (nextConnectionId p1 + 1)))]\<rparr>
             else p1\<lparr>waitingQueue := waitingQueue p1 @ [(ticket, now)],
                     suspended := suspended p1 @ [(ticket, Parked)]\<rparr>)"

text \<open>The rest of \<open>createConnection\<close>, once the factory has given the connection.\<close>

definition createConnectionDone ::
  "nat \<Rightarrow> string \<Rightarrow> 'c \<Rightarrow> nat \<Rightarrow> 'c ConnectionPool \<Rightarrow> 'c ConnectionPool" where
  "createConnectionDone ticket cid conn now p =
     (let cs = assoc_set cid \<lparr>conn_id = cid, connection = conn, createdAt = now,
                              lastUsedAt = now, inUse = False, requestCount = 0\<rparr> (connections p)
      in p\<lparr>connections := cs,
            metrics := (metrics p)\<lparr>totalCreated := totalCreated (metrics p) + 1,
                                    idleConnections := idleConnections (metrics p) + 1,
                                    peakConnections := max (peakConnections (metrics p)) (length cs)\<rparr>,
            suspended := assoc_set ticket (FactoryDone cid) (suspended p)\<rparr>)"

text \<open>The continuation of \<open>acquire\<close> after either \<open>await\<close> gave it a connection.\<close>

definition acquireResume :: "nat \<Rightarrow> string \<Rightarrow> nat \<Rightarrow> 'c ConnectionPool \<Rightarrow> 'c ConnectionPool" where
  "acquireResume ticket cid now p =
     (waitingDone (markInUse cid now p))\<lparr>suspended := assoc_delete ticket (suspended p)\<rparr>"

text \<open>The \<open>catch\<close> clause of \<open>acquire\<close>, when the awaited promise was rejected.\<close>

definition acquireFailed :: "nat \<Rightarrow> 'c ConnectionPool \<Rightarrow> 'c ConnectionPool" where
  "acquireFailed ticket p = (waitingDone p)\<lparr>suspended := assoc_delete ticket (suspended p)\<rparr>"

text \<open>
  \<open>serveWaitingRequest\<close>: the head of the queue is shifted and its \<open>resolve\<close> called with
  an idle connection; that settles the waiter's promise when it is still pending.
\<close>

definition serveWaitingRequest :: "'c ConnectionPool \<Rightarrow> 'c ConnectionPool" where
  "serveWaitingRequest p =
     (case waitingQueue p of
        [] \<Rightarrow> p
      | (ticket, requestedAt) # rest \<Rightarrow>
          (case getIdleConnection p of
             None \<Rightarrow> p
           | Some c \<Rightarrow>
               p\<lparr>waitingQueue := rest,
                 suspended := (if map_of (suspended p) ticket = Some Parked
                               then assoc_set ticket (Handed (conn_id c)) (suspended p)
                               else suspended p)\<rparr>))"

definition release :: "string \<Rightarrow> nat \<Rightarrow> 'c ConnectionPool \<Rightarrow> 'c ConnectionPool" where
  "release cid now p =
     (case map_of (connections p) cid of
        None \<Rightarrow> p
      | Some c \<Rightarrow>
          serveWaitingRequest
            (p\<lparr>connections :=
                 assoc_set cid (c\<lparr>inUse := False, lastUsedAt := now,
                                   requestCount := requestCount c + 1\<rparr>) (connections p),
               metrics := (metrics p)\<lparr>activeConnections := activeConnections (metrics p) - 1,
                                       idleConnections := idleConnections (metrics p) + 1\<rparr>\<rparr>))"

definition destroyConnection :: "string \<Rightarrow> 'c ConnectionPool \<Rightarrow> 'c ConnectionPool" where
  "destroyConnection cid p =
     (case map_of (connections p) cid of
        None \<Rightarrow> p
      | Some c \<Rightarrow>
          p\<lparr>connections := assoc_delete cid (connections p),
            metrics :=
              (if inUse c
               then (metrics p)\<lparr>totalDestroyed := totalDestroyed (metrics p) + 1,
                                 activeConnections := activeConnections (metrics p) - 1\<rparr>
               else (metrics p)\<lparr>totalDestroyed := totalDestroyed (metrics p) + 1,
                                 idleConnections := idleConnections (metrics p) - 1\<rparr>)\<rparr>)"

definition cleanupIdleConnections :: "nat \<Rightarrow> 'c ConnectionPool \<Rightarrow> 'c ConnectionPool" where
  "cleanupIdleConnections now p =
     fold destroyConnection
       (map fst (filter (\<lambda>(k, c). \<not> inUse c \<and> int now - int (lastUsedAt c) > maxIdleTime (config p))
                        (connections p)))
       p"

text \<open>
  The timer of \<open>waitForConnection\<close> firing for a parked call. It looks for the waiter
  with \<open>w.resolve === resolve\<close>; the queue holds a wrapper around \<open>resolve\<close>, never
  \<open>resolve\<close> itself, so no entry is found and the queue is left as it is. The promise is
  rejected and the \<open>catch\<close> clause of \<open>acquire\<close> runs.
\<close>

definition waitTimeout :: "nat \<Rightarrow> 'c ConnectionPool \<Rightarrow> 'c ConnectionPool" where
  "waitTimeout ticket p = acquireFailed ticket p"

text \<open>\<open>drain\<close> only waits (up to 30 s) for \<open>activeConnections\<close> to reach 0.\<close>

definition drain :: "'c ConnectionPool \<Rightarrow> 'c ConnectionPool" where
  "drain p = p"

text \<open>
  \<open>shutdown\<close> up to its \<open>await this.drain()\<close>, and after it: every connection then in
  the map is destroyed, every queued waiter rejected, the queue emptied.
\<close>

definition shutdownStart :: "'c ConnectionPool \<Rightarrow> 'c ConnectionPool" where
  "shutdownStart p = drain (p\<lparr>cleanupInterval := False\<rparr>)"

definition rejectWaiter :: "nat \<Rightarrow> 'c ConnectionPool \<Rightarrow> 'c ConnectionPool" where
  "rejectWaiter ticket p =
     (if map_of (suspended p) ticket = Some Parked then acquireFailed ticket p else p)"

definition shutdownFinish :: "'c ConnectionPool \<Rightarrow> 'c ConnectionPool" where
  "shutdownFinish p =
     (let p1 = fold destroyConnection (map fst (connections p)) p;
          p2 = fold rejectWaiter (map fst (waitingQueue p1)) p1
      in p2\<lparr>waitingQueue := []\<rparr>)"

text \<open>
  The steps of the pool. A step that continues a suspended call is possible only in the
  matching state of that call; a new call needs a ticket not in use.
\<close>

datatype 'c PoolEvent =
    AcquireStart nat nat
  | FactoryResolved nat 'c nat
  | FactoryRejected nat
  | AcquireResume nat nat
  | Release string nat
  | WaitTimeout nat
  | CleanupIdle nat
  | Drain
  | ShutdownStart
  | ShutdownFinish

fun step :: "'c PoolEvent \<Rightarrow> 'c ConnectionPool \<Rightarrow> 'c ConnectionPool option" where
  "step (AcquireStart ticket now) p =
     (if map_of (suspended p) ticket = None then Some (acquireStart ticket now p) else None)"
| "step (FactoryResolved ticket conn now) p =
     (case map_of (suspended p) ticket of
        Some (AwaitingFactory cid) \<Rightarrow> Some (createConnectionDone ticket cid conn now p)
      | _ \<Rightarrow> None)"
| "step (FactoryRejected ticket) p =
     (case map_of (suspended p) ticket of
        Some (AwaitingFactory cid) \<Rightarrow> Some (acquireFailed ticket p)
      | _ \<Rightarrow> None)"
| "step (AcquireResume ticket now) p =
     (case map_of (suspended p) ticket of
        Some (FactoryDone cid) \<Rightarrow> Some (acquireResume ticket cid now p)
      | Some (Handed cid) \<Rightarrow> Some (acquireResume ticket cid now p)
      | _ \<Rightarrow> None)"
| "step (Release cid now) p = Some (release cid now p)"
| "step (WaitTimeout ticket) p =
     (if map_of (suspended p) ticket = Some Parked then Some (waitTimeout ticket p) else None)"
| "step (CleanupIdle now) p = Some (cleanupIdleConnections now p)"
| "step Drain p = Some (drain p)"
| "step ShutdownStart p = Some (shutdownStart p)"
| "step ShutdownFinish p = Some (shutdownFinish p)"

fun runPool :: "'c PoolEvent list \<Rightarrow> 'c ConnectionPool \<Rightarrow> 'c ConnectionPool option" where
  "runPool [] p = Some p"
| "runPool (e # es) p = (case step e p of None \<Rightarrow> None | Some p' \<Rightarrow> runPool es p')"

section \<open>Notions used in the statements\<close>

text \<open>
  The active map as \<open>reportToolCall\<close> builds it: keys are unique, and an entry is stored
  under its own tool call id.
\<close>

definition tracked_ok :: "ToolCallManager \<Rightarrow> bool" where
  "tracked_ok m =
     (distinct (map fst (activeToolCalls m))
      \<and> list_all (\<lambda>kv. info_toolCallId (snd kv) = fst kv) (activeToolCalls m))"

definition nonTerminal :: "ToolCallInfo \<Rightarrow> bool" where
  "nonTerminal tc = (info_status tc = pending \<or> info_status tc = in_progress)"

text \<open>The \<open>tool_call_update\<close> a cancellation sends for one tool call.\<close>

definition cancelNotice :: "string \<Rightarrow> string \<Rightarrow> AcpNotification" where
  "cancelNotice sid tid =
     \<lparr>sessionId = sid,
      update = tool_call_update
        \<lparr>toolCallId = tid, title = Some ''Cancelled by user'', kind = None,
         status = Some failed, rawInput = None, locations = None, content = None,
         rawOutput = None\<rparr>\<rparr>"

subsection \<open>Example states\<close>

definition exampleInfo :: "string \<Rightarrow> string \<Rightarrow> ToolCallStatus \<Rightarrow> ToolCallInfo" where
  "exampleInfo tid sid st =
     \<lparr>info_toolCallId = tid, info_sessionId = sid, toolName = ''read_file'', info_status = st,
      startTime = 0, endTime = None,
      info_update = \<lparr>toolCallId = tid, title = Some ''Reading file: /x'', kind = Some read,
                     status = Some st, rawInput = None, locations = None, content = None,
                     rawOutput = None\<rparr>\<rparr>"

text \<open>
  Session \<open>S\<close> with one call in progress, one completed and one pending, and session \<open>T\<close>
  with one pending call.
\<close>

definition exampleManager :: ToolCallManager where
  "exampleManager =
     \<lparr>activeToolCalls =
        [(''t1'', exampleInfo ''t1'' ''S'' in_progress),
         (''t2'', exampleInfo ''t2'' ''T'' pending),
         (''t3'', exampleInfo ''t3'' ''S'' completed),
         (''t4'', exampleInfo ''t4'' ''S'' pending)],
      toolCallCounter = 4, timers = []\<rparr>"

subsection \<open>Events of an execution\<close>




subsection \<open>Example registry\<close>

definition okResult :: ToolResult where
  "okResult = \<lparr>success = True, result = JStr ''ok'', error = None, metadata = []\<rparr>"

definition readTool :: Tool where
  "readTool = \<lparr>tool_name = ''read_file'', required = Some [''path''],
               handler = (\<lambda>ps. Returns okResult)\<rparr>"

definition writeTool :: Tool where
  "writeTool = \<lparr>tool_name = ''write_file'', required = Some [''path'', ''content''],
                handler = (\<lambda>ps. Returns okResult)\<rparr>"

definition moveTool :: Tool where
  "moveTool = \<lparr>tool_name = ''move_file'', required = Some [''source'', ''destination''],
               handler = (\<lambda>ps. Returns okResult)\<rparr>"

definition exampleRegistry :: ToolRegistry where
  "exampleRegistry =
     setToolCallManager newToolCallManager
       (registerProvider [readTool, writeTool, moveTool] \<lparr>tools = [], toolCallManager = None\<rparr>)"

definition exampleEnv :: ExecEnv where
  "exampleEnv = \<lparr>startedAt = 1, reportedAt = 2, finishedAt = 5, whileAwaiting = quiet\<rparr>"





subsection \<open>Example runs\<close>

text \<open>\<open>npm install\<close> in a terminal that exits with code 0.\<close>

definition npmRun :: TerminalRun where
  "npmRun = \<lparr>created = Inr ''term-1'',
             exited = Inr \<lparr>exitCode = Some 0, signal = None\<rparr>,
             finalOutput = Inr \<lparr>to_output = ''added 1 package'', to_truncated = False\<rparr>,
             errorOutput = Inl ''not read''\<rparr>"

definition noOptions :: ExecuteWithProgressOptions where
  "noOptions = \<lparr>po_title = None, po_cwd = None, po_pollIntervalMs = None\<rparr>"

text \<open>
  A file system client whose first call fails with an error that is neither a validation
  error, nor file-not-found, nor a permission error, and whose later calls succeed.
\<close>

definition defaultFsConfig :: FileSystemConfig where
  "defaultFsConfig = \<lparr>enabled = True, retries = None, retryDelay = None, enableMetrics = None\<rparr>"

definition flakyClient :: "nat \<Rightarrow> JsError + string" where
  "flakyClient k = (if k = 0 then Inl (Error ''socket hang up'') else Inr ''hello'')"

definition fileParams :: json where
  "fileParams = JObj [(''path'', JStr ''/a''), (''content'', JStr ''hi''), (''_sessionId'', JStr ''S'')]"

text \<open>A JSON-RPC response, and a serialiser that gives a fixed text.\<close>

definition pingMessage :: json where
  "pingMessage = JObj [(''jsonrpc'', JStr ''2.0''), (''id'', JNum 1), (''result'', JObj [])]"

definition fixedText :: "json \<Rightarrow> string + string" where
  "fixedText j = Inr ''{}''"

text \<open>
  The stream after the first message was written, and after a second write was refused.
\<close>

definition firstWritten :: WritableStream where
  "firstWritten = snd (stream_write pingMessage writable)"

definition secondRefused :: WritableStream where
  "secondRefused = snd (stream_write (JObj []) firstWritten)"

text \<open>
  A pool limited to one connection, and two calls of \<open>acquire\<close> issued one after the
  other before either factory has answered (as by \<open>Promise.all\<close>).
\<close>

definition limitOne :: ConnectionPoolConfig where
  "limitOne = \<lparr>maxConnections = 1, maxIdleTime = 60000, acquireTimeout = 5000,
               metricsEnabled = True\<rparr>"

definition burst :: "string PoolEvent list" where
  "burst = [AcquireStart 1 0, AcquireStart 2 0,
            FactoryResolved 1 ''a'' 1, FactoryResolved 2 ''b'' 1,
            AcquireResume 1 1, AcquireResume 2 1]"

subsection \<open>Notions for the connection pool\<close>

text \<open>The number a decimal numeral stands for; it recovers \<open>n\<close> from \<open>show_nat n\<close>.\<close>

definition digit_value :: "char \<Rightarrow> nat" where
  "digit_value c = of_char c - 48"

definition decimal_value :: "string \<Rightarrow> nat" where
  "decimal_value s = foldl (\<lambda>a c. 10 * a + digit_value c) 0 s"

text \<open>\<open>Array.from(this.connections.keys())\<close>\<close>

definition connectionIds :: "'c ConnectionPool \<Rightarrow> string list" where
  "connectionIds p = map fst (connections p)"

text \<open>
  What holds of a pool after any steps: the counters account for the map; the keys of the
  map and the tickets of the suspended calls are unique; every id in the map or drawn by a
  call that awaits its factory is the name of a number drawn so far, and an id awaited is
  not yet in the map and awaited by one call only.
\<close>

definition pool_inv :: "'c ConnectionPool \<Rightarrow> bool" where
  "pool_inv p \<longleftrightarrow>
     totalCreated (metrics p) = totalDestroyed (metrics p) + length (connectionIds p)
   \<and> distinct (connectionIds p)
   \<and> distinct (map fst (suspended p))
   \<and> (\<forall>k \<in> set (connectionIds p). \<exists>n. n \<le> nextConnectionId p \<and> k = connectionName n)
   \<and> (\<forall>t cid. (t, AwaitingFactory cid) \<in> set (suspended p) \<longrightarrow>
         (\<exists>n. n \<le> nextConnectionId p \<and> cid = connectionName n)
         \<and> cid \<notin> set (connectionIds p))
   \<and> (\<forall>t t' cid. (t, AwaitingFactory cid) \<in> set (suspended p)
         \<and> (t', AwaitingFactory cid) \<in> set (suspended p) \<longrightarrow> t = t')"

text \<open>
  The calls awaiting their factory; the connections in the map together with those being
  created; and the runs in which no call of \<open>acquire\<close> starts while another one awaits
  its factory.
\<close>

fun awaitsFactory :: "nat \<times> Suspended \<Rightarrow> bool" where
  "awaitsFactory (t, AwaitingFactory cid) = True"
| "awaitsFactory (t, st) = False"

definition creating :: "'c ConnectionPool \<Rightarrow> (nat \<times> Suspended) list" where
  "creating p = filter awaitsFactory (suspended p)"

fun startsAcquire :: "'c PoolEvent \<Rightarrow> bool" where
  "startsAcquire (AcquireStart ticket now) = True"
| "startsAcquire e = False"

fun serial :: "'c PoolEvent list \<Rightarrow> 'c ConnectionPool \<Rightarrow> bool" where
  "serial [] p = True"
| "serial (e # es) p =
     ((startsAcquire e \<longrightarrow> creating p = [])
      \<and> (case step e p of None \<Rightarrow> True | Some p' \<Rightarrow> serial es p'))"

definition reserved :: "'c ConnectionPool \<Rightarrow> int" where
  "reserved p = int (length (connections p)) + int (length (creating p))"

section \<open>Association lists\<close>

lemma assoc_delete_assoc_set: "assoc_delete k (assoc_set k v kvs) = assoc_delete k kvs"
  by (induction kvs) (auto simp: assoc_delete_def)

lemma map_of_assoc_delete_other: "k' \<noteq> k \<Longrightarrow> map_of (assoc_delete k kvs) k' = map_of kvs k'"
  by (induction kvs) (auto simp: assoc_delete_def)

lemma filter_assoc_delete:
  "filter P (assoc_delete k kvs) = filter (\<lambda>kv. fst kv \<noteq> k \<and> P kv) kvs"
  by (induction kvs) (auto simp: assoc_delete_def)

section \<open>Cancelling the tool calls of a session\<close>

lemma updateToolCall_tracked:
  "map_of (activeToolCalls m) tid = Some info \<Longrightarrow>
   \<exists>info'. updateToolCall now sid tid u m =
     ([\<lparr>sessionId = sid, update = tool_call_update (updatePayload tid u)\<rparr>],
      m\<lparr>activeToolCalls := assoc_set tid info' (activeToolCalls m)\<rparr>)"
  by (auto simp: updateToolCall_def)

text \<open>
  The loop over a snapshot whose members are tracked under distinct ids: one notice per
  member that is not terminal, and every member leaves the map.
\<close>

lemma cancelLoop_general:
  "distinct (map info_toolCallId tcs) \<Longrightarrow>
   list_all (\<lambda>tc. map_of (activeToolCalls m) (info_toolCallId tc) = Some tc) tcs \<Longrightarrow>
   cancelLoop now sid tcs m =
     (map (cancelNotice sid) (map info_toolCallId (filter nonTerminal tcs)),
      m\<lparr>activeToolCalls :=
          filter (\<lambda>kv. fst kv \<notin> set (map info_toolCallId tcs)) (activeToolCalls m)\<rparr>)"
proof (induction tcs arbitrary: m)
  case Nil
  then show ?case by simp
next
  case (Cons tc tcs)
  let ?k = "info_toolCallId tc"
  have tr: "map_of (activeToolCalls m) ?k = Some tc" using Cons.prems(2) by simp
  obtain ns1 m1 where u: "(if info_status tc = pending \<or> info_status tc = in_progress
             then updateToolCall now sid ?k
                    (noUpdates\<lparr>u_status := Some failed, u_title := Some ''Cancelled by user''\<rparr>) m
             else ([], m)) = (ns1, m1)" by force
  have ns1: "ns1 = (if nonTerminal tc then [cancelNotice sid ?k] else [])"
    and del: "assoc_delete ?k (activeToolCalls m1) = assoc_delete ?k (activeToolCalls m)"
    and rest: "m1\<lparr>activeToolCalls := X\<rparr> = m\<lparr>activeToolCalls := X\<rparr>" for X
    using u updateToolCall_tracked[OF tr, of now sid
        "noUpdates\<lparr>u_status := Some failed, u_title := Some ''Cancelled by user''\<rparr>"]
    by (auto simp: nonTerminal_def cancelNotice_def updatePayload_def noUpdates_def
        assoc_delete_assoc_set split: if_splits)
  let ?m2 = "m\<lparr>activeToolCalls := assoc_delete ?k (activeToolCalls m)\<rparr>"
  have d: "distinct (map info_toolCallId tcs)" using Cons.prems(1) by simp
  have l: "list_all (\<lambda>t. map_of (activeToolCalls ?m2) (info_toolCallId t) = Some t) tcs"
  proof -
    have "map_of (activeToolCalls ?m2) (info_toolCallId t) = Some t" if "t \<in> set tcs" for t
    proof -
      have "?k \<notin> info_toolCallId ` set tcs" using Cons.prems(1) by simp
      then have "info_toolCallId t \<noteq> ?k" using that by (metis imageI)
      moreover have "map_of (activeToolCalls m) (info_toolCallId t) = Some t"
        using that Cons.prems(2) by (simp add: list_all_iff)
      ultimately show ?thesis by (simp add: map_of_assoc_delete_other)
    qed
    then show ?thesis by (simp add: list_all_iff)
  qed
  have ih: "cancelLoop now sid tcs ?m2 =
     (map (cancelNotice sid) (map info_toolCallId (filter nonTerminal tcs)),
      ?m2\<lparr>activeToolCalls :=
          filter (\<lambda>kv. fst kv \<notin> set (map info_toolCallId tcs)) (activeToolCalls ?m2)\<rparr>)"
    by (rule Cons.IH[OF d l])
  show ?case
    using u ih by (simp add: del rest ns1 filter_assoc_delete)
qed

lemma tracked_lookup:
  "tracked_ok m \<Longrightarrow> (k, tc) \<in> set (activeToolCalls m) \<Longrightarrow>
   info_toolCallId tc = k \<and> map_of (activeToolCalls m) k = Some tc"
  by (auto simp: tracked_ok_def list_all_iff)

lemma tracked_ids:
  "tracked_ok m \<Longrightarrow> map info_toolCallId (map snd (activeToolCalls m)) = map fst (activeToolCalls m)"
  by (auto simp: tracked_ok_def list_all_iff)



section \<open>Permission requests\<close>

text \<open>
  C10. \<open>requestToolPermission\<close>: without a \<open>requestPermission\<close> handler the outcome is
  \<open>{outcome: "selected", optionId: "allow-once"}\<close>, whatever the tool call and the
  options; with a handler, the outcome is \<open>{outcome: "selected", optionId:
  "reject-once"}\<close> when the tool call id is not in the active map, when the handler
  throws and when it gives a falsy outcome, and the handler's outcome otherwise. The
  function has a value in every case: no error leaves it.
\<close>

theorem requestToolPermission_defaults:
  "requestToolPermission None m sid tid opts = selected ''allow-once''
   \<and> (map_of (activeToolCalls m) tid = None \<longrightarrow>
        requestToolPermission (Some h) m sid tid opts = selected ''reject-once'')
   \<and> (\<forall>info. map_of (activeToolCalls m) tid = Some info \<longrightarrow>
        (let reply = h \<lparr>rp_sessionId = sid, rp_toolCall = info_update info, rp_options = opts\<rparr>
         in ((\<exists>e. reply = Rejects e) \<or> reply = Resolves None \<longrightarrow>
              requestToolPermission (Some h) m sid tid opts = selected ''reject-once'')
            \<and> (\<forall>outcome. reply = Resolves (Some outcome) \<longrightarrow>
                 requestToolPermission (Some h) m sid tid opts = outcome)))"
  by (auto simp: requestToolPermission_def Let_def)

theorem requestToolPermission_defaults_witness:
  "requestToolPermission None exampleManager ''S'' ''t1'' [] = selected ''allow-once''
   \<and> map_of (activeToolCalls exampleManager) ''t9'' = None
   \<and> requestToolPermission (Some (\<lambda>ps. Resolves (Some cancelled))) exampleManager ''S'' ''t9'' []
       = selected ''reject-once''
   \<and> map_of (activeToolCalls exampleManager) ''t1'' = Some (exampleInfo ''t1'' ''S'' in_progress)
   \<and> requestToolPermission (Some (\<lambda>ps. Rejects ''closed'')) exampleManager ''S'' ''t1'' []
       = selected ''reject-once''
   \<and> requestToolPermission (Some (\<lambda>ps. Resolves None)) exampleManager ''S'' ''t1'' []
       = selected ''reject-once''
   \<and> requestToolPermission (Some (\<lambda>ps. Resolves (Some cancelled))) exampleManager ''S'' ''t1'' []
       = cancelled"
  using requestToolPermission_defaults
          [of exampleManager "''S''" "''t9''" "[]" "\<lambda>ps. Resolves (Some cancelled)"]
        requestToolPermission_defaults
          [of exampleManager "''S''" "''t1''" "[]" "\<lambda>ps. Rejects ''closed''"]
        requestToolPermission_defaults
          [of exampleManager "''S''" "''t1''" "[]" "\<lambda>ps. Resolves None"]
        requestToolPermission_defaults
          [of exampleManager "''S''" "''t1''" "[]" "\<lambda>ps. Resolves (Some cancelled)"]
  by (simp add: exampleManager_def Let_def)


section \<open>The example registry\<close>

lemma exampleRegistry_tools:
  "tools exampleRegistry = [(''read_file'', readTool), (''write_file'', writeTool), (''move_file'', moveTool)]"
  by (simp add: exampleRegistry_def setToolCallManager_def registerProvider_def readTool_def writeTool_def moveTool_def)

lemma exampleRegistry_manager: "toolCallManager exampleRegistry = Some newToolCallManager"
  by (simp add: exampleRegistry_def setToolCallManager_def)


section \<open>Tool-call lifecycle\<close>








section \<open>Parameter validation\<close>






section \<open>Locations\<close>

text \<open>
  C5. The locations reported for \<open>{path: "/x"}\<close> and for \<open>{files: ["/p", "/q"]}\<close> are
  as claimed. For \<open>{source: "/a", destination: "/b"}\<close> the code reports only
  \<open>[{path: "/b"}]\<close>: \<open>extractLocations\<close> reads \<open>path\<close> and \<open>sourcePath\<close>, never
  \<open>source\<close>, the key that \<open>getToolTitle\<close> reads for a move or a copy. The last
  conjunct is the \<open>tool_call\<close> notification of such a move.
\<close>

theorem extractLocations_cases:
  "extractLocations (JObj [(''path'', JStr ''/x'')]) = [\<lparr>path = JStr ''/x''\<rparr>]
   \<and> extractLocations (JObj [(''source'', JStr ''/a''), (''destination'', JStr ''/b'')])
       = [\<lparr>path = JStr ''/b''\<rparr>]
   \<and> extractLocations (JObj [(''files'', JArr [JStr ''/p'', JStr ''/q''])])
       = [\<lparr>path = JStr ''/p''\<rparr>, \<lparr>path = JStr ''/q''\<rparr>]
   \<and> hd (fst (snd (executeToolWithSession exampleEnv
          \<lparr>call_id = ''c3'', call_name = ''move_file'',
           parameters = JObj [(''source'', JStr ''/a''), (''destination'', JStr ''/b'')]\<rparr>
          (Some ''S'') exampleRegistry)))
       = Sent \<lparr>sessionId = ''S'',
               update = tool_call
                 \<lparr>toolCallId = ''tool_move_file_2_1'',
                  title = Some (''Moving file: /a '' @ arrow @ '' /b''),
                  kind = Some move, status = Some pending,
                  rawInput = Some (JObj [(''source'', JStr ''/a''), (''destination'', JStr ''/b'')]),
                  locations = Some [\<lparr>path = JStr ''/b''\<rparr>],
                  content = None, rawOutput = None\<rparr>\<rparr>"
  by (simp add: extractLocations_def js_or_def executeToolWithSession_def exampleRegistry_tools
      moveTool_def validateToolParameters_def requiredOf_def exampleRegistry_manager
      exampleEnv_def beginReport_def reportToolCall_def generateToolCallId_def toolCallIdOf_def
      newToolCallManager_def getToolTitle_def tpl2_def getToolKind_def kindMap_def
      when_truthy_def updateToolCall_def quiet_def finishReport_def okResult_def
      completeToolCall_def digit_char_def Let_def split: prod.splits)

section \<open>Progress reporting of a terminal command\<close>

text \<open>
  Whenever the terminal could be created, the first notification of
  \<open>executeWithProgress\<close> is a \<open>tool_call\<close> with status \<open>in_progress\<close>, the given
  title or "$ <command> <args>", and the kind \<open>edit\<close>.
\<close>

lemma executeWithProgress_first:
  "created tr = Inr terminalId \<Longrightarrow>
   \<exists>r rest m'.
     executeWithProgress tr t1 t2 m sid command args opts =
       (r,
        \<lparr>sessionId = sid,
         update = tool_call
           \<lparr>toolCallId = toolCallIdOf ''execute_command'' t1 (toolCallCounter m + 1),
            title = Some (case po_title opts of Some t \<Rightarrow> t
                          | None \<Rightarrow> ''$ '' @ command @ '' '' @ join_with '' '' args),
            kind = Some edit, status = Some in_progress,
            rawInput = Some (JObj [(''command'', JStr command), (''args'', JArr (map JStr args)),
                                   (''cwd'', opt_json JStr (po_cwd opts))]),
            locations = None, content = None, rawOutput = None\<rparr>\<rparr> # rest,
        m')"
  by (auto simp: executeWithProgress_def progressBody_def reportToolCall_def
      generateToolCallId_def when_truthy_def Let_def split: prod.splits sum.splits)

text \<open>
  C6. \<open>executeWithProgress(S, "npm", ["install"])\<close> without a title: the first
  notification is a \<open>tool_call\<close> with status \<open>in_progress\<close> and title
  "$ npm install", as claimed, but its kind is \<open>edit\<close>, not \<open>execute\<close>, although the
  call is reported under the tool name \<open>execute_command\<close>, which the registry maps to
  \<open>execute\<close>.
\<close>

theorem executeWithProgress_kind:
  "fst (snd (executeWithProgress npmRun 2 5 newToolCallManager ''S'' ''npm'' [''install''] noOptions)) =
     [\<lparr>sessionId = ''S'',
       update = tool_call
         \<lparr>toolCallId = ''tool_execute_command_2_1'', title = Some ''$ npm install'',
          kind = Some edit, status = Some in_progress,
          rawInput = Some (JObj [(''command'', JStr ''npm''), (''args'', JArr [JStr ''install'']),
                                 (''cwd'', JUndefined)]),
          locations = None, content = None, rawOutput = None\<rparr>\<rparr>,
      \<lparr>sessionId = ''S'',
       update = tool_call_update
         \<lparr>toolCallId = ''tool_execute_command_2_1'', title = None, kind = None, status = None,
          rawInput = None, locations = None, content = Some [TerminalContent ''term-1''],
          rawOutput = None\<rparr>\<rparr>,
      \<lparr>sessionId = ''S'',
       update = tool_call_update
         \<lparr>toolCallId = ''tool_execute_command_2_1'',
          title = Some (check_mark @ '' Command completed successfully''), kind = None,
          status = Some completed, rawInput = None, locations = None,
          content = Some [TerminalContent ''term-1''],
          rawOutput = Some (JObj [(''exitCode'', JNum 0), (''outputLength'', JNum 15),
                                  (''truncated'', JBool False)])\<rparr>\<rparr>]
   \<and> getToolKind ''execute_command'' = execute"
  by (simp add: executeWithProgress_def progressBody_def npmRun_def noOptions_def
      reportToolCall_def generateToolCallId_def toolCallIdOf_def newToolCallManager_def
      when_truthy_def updateToolCall_def applyUpdates_def updatePayload_def noUpdates_def
      completeToolCall_def createTerminalContent_def opt_json_def digit_char_def
      getToolKind_def kindMap_def Let_def)

section \<open>Retries of the filesystem tools\<close>

text \<open>
  A single attempt never throws: its \<open>catch\<close> clause turns every error of the
  \<open>try\<close> block into a returned failure result.
\<close>

lemma readFileOnce_returns: "\<exists>r w'. readFileOnce client opId ps w = (Inr r, w')"
  by (auto simp: readFileOnce_def split: prod.splits sum.splits)

lemma writeFileOnce_returns: "\<exists>r w'. writeFileOnce client opId ps w = (Inr r, w')"
  by (auto simp: writeFileOnce_def split: prod.splits sum.splits)

text \<open>
  So the retry loop returns what the first attempt returns: there is no second attempt
  and no delay. (With a negative \<open>retries\<close> the loop body never runs and the call throws
  \<open>undefined\<close>.)
\<close>

lemma readFile_single_attempt:
  "readFile cfg client opId ps w =
     (if 0 \<le> maxRetriesOf cfg then readFileOnce client opId ps w
      else (Inl (Thrown JUndefined), w))"
proof -
  obtain r w' where "readFileOnce client opId ps w = (Inr r, w')"
    using readFileOnce_returns by blast
  then show ?thesis by (simp add: readFile_def)
qed

lemma writeFile_single_attempt:
  "writeFile cfg client opId ps w =
     (if 0 \<le> maxRetriesOf cfg then writeFileOnce client opId ps w
      else (Inl (Thrown JUndefined), w))"
proof -
  obtain r w' where "writeFileOnce client opId ps w = (Inr r, w')"
    using writeFileOnce_returns by blast
  then show ?thesis by (simp add: writeFile_def)
qed

text \<open>
  C7. With the default configuration (3 retries), a client whose first call fails with
  the transient error "socket hang up" and whose next call would succeed: \<open>read_file\<close>
  and \<open>write_file\<close> call the client once, wait for no delay, throw nothing and return
  a failure result. The claim has the call retried after 1000 ms.
\<close>

theorem transient_error_not_retried:
  "\<not> isValidationError (Error ''socket hang up'')
   \<and> \<not> isFileNotFoundError (Error ''socket hang up'')
   \<and> \<not> isPermissionError (Error ''socket hang up'')
   \<and> maxRetriesOf defaultFsConfig = 3
   \<and> readFile defaultFsConfig flakyClient None fileParams newFsWorld =
       (Inr \<lparr>success = False, result = JUndefined,
             error = Some (''File system read operation failed for '' @ [CHR 0x27] @ ''/a''
                           @ [CHR 0x27] @ '': socket hang up''),
             metadata = []\<rparr>,
        \<lparr>clientCalls = 1, effects = [ReadTextFile ''S'' ''/a'' JUndefined JUndefined]\<rparr>)
   \<and> writeFile defaultFsConfig flakyClient None fileParams newFsWorld =
       (Inr \<lparr>success = False, result = JUndefined,
             error = Some (''File system write operation failed for '' @ [CHR 0x27] @ ''/a''
                           @ [CHR 0x27] @ '': socket hang up''),
             metadata = []\<rparr>,
        \<lparr>clientCalls = 1, effects = [WriteTextFile ''S'' ''/a'' ''hi'']\<rparr>)"
  by (simp add: isValidationError_def isFileNotFoundError_def isPermissionError_def
      starts_with_def maxRetriesOf_def defaultFsConfig_def readFile_single_attempt
      writeFile_single_attempt readFileOnce_def readFileBody_def writeFileOnce_def
      writeFileBody_def flakyClient_def fileParams_def newFsWorld_def attemptErrorText_def
      Let_def)

section \<open>The writable side of the HTTP stream\<close>

text \<open>
  The functions of the sink, called one by one. For a first message that is an object (a
  JSON-RPC message) and that \<open>JSON.stringify\<close> serialises to \<open>body\<close>: the first \<open>write\<close>
  buffers it; any second \<open>write\<close> throws and leaves the buffer as it is; \<open>close\<close>, were it
  called then, would answer with status 200 and the body of the first message.
\<close>

lemma sink_single_write:
  assumes "is_object m1" and "stringify m1 = Inr body"
  shows "sink_write m1 httpToStream = Inr (httpToStream\<lparr>responseBuffer := m1\<rparr>)
         \<and> sink_write m2 (httpToStream\<lparr>responseBuffer := m1\<rparr>) = Inl multipleWritesMessage
         \<and> str_includes multipleWritesMessage ''HTTP stream does not support multiple writes''
         \<and> sink_close stringify (httpToStream\<lparr>responseBuffer := m1\<rparr>) =
             Inr \<lparr>responseBuffer = m1, responseWritten = True,
                  res = [WriteHead 200 (okHeaders body), End (Some body)]\<rparr>"
  using assms
  by (cases m1)
     (simp_all add: sink_write_def sink_close_def httpToStream_def multipleWritesMessage_def
        starts_with_def okHeaders_def)

text \<open>
  Through the stream: one message written and the stream closed gives status 200 with
  that message as the body; nothing written and the stream closed gives status 204 and no
  body.
\<close>

lemma single_write_delivered:
  assumes "is_object m1" and "stringify m1 = Inr body"
  shows "stream_write m1 writable =
           (Fulfilled, writable\<lparr>ws_sink := httpToStream\<lparr>responseBuffer := m1\<rparr>\<rparr>)"
    and "stream_close stringify (writable\<lparr>ws_sink := httpToStream\<lparr>responseBuffer := m1\<rparr>\<rparr>) =
           (Fulfilled,
            \<lparr>ws_state = Closed,
             ws_sink = \<lparr>responseBuffer = m1, responseWritten = True,
                        res = [WriteHead 200 (okHeaders body), End (Some body)]\<rparr>\<rparr>)"
  using sink_single_write[of m1 stringify body JNull] assms
  by (simp_all add: stream_write_def stream_close_def writable_def)

lemma no_write_no_content:
  "stream_close stringify writable =
     (Fulfilled,
      \<lparr>ws_state = Closed,
       ws_sink = \<lparr>responseBuffer = JNull, responseWritten = True,
                  res = [WriteHead 204 [], End None]\<rparr>\<rparr>)"
  by (simp add: stream_close_def writable_def sink_close_def httpToStream_def)

text \<open>
  A second write, for any first message that is an object, rejects with the sink's error
  and leaves the stream errored, nothing sent.
\<close>

lemma second_write_errors:
  assumes "is_object m1"
  shows "stream_write m2 (writable\<lparr>ws_sink := httpToStream\<lparr>responseBuffer := m1\<rparr>\<rparr>) =
           (Rejected (Reason multipleWritesMessage),
            \<lparr>ws_state = Errored (Reason multipleWritesMessage),
             ws_sink = httpToStream\<lparr>responseBuffer := m1\<rparr>\<rparr>)"
  using assms
  by (cases m1) (simp_all add: stream_write_def writable_def sink_write_def)

text \<open>An errored stream never calls the sink again: whatever is called on it, it stays as it is.\<close>

lemma errored_call:
  "ws_state s = Errored e \<Longrightarrow> snd (stream_call stringify c s) = s"
  by (cases c) (simp_all add: stream_write_def stream_close_def stream_abort_def)

lemma errored_calls:
  "ws_state s = Errored e \<Longrightarrow> stream_calls stringify cs s = s"
  by (induction cs) (simp_all add: errored_call)

lemma refused_write_never_answered:
  assumes "is_object m1"
  shows "res (ws_sink (stream_calls stringify (Write m2 # cs)
                         (writable\<lparr>ws_sink := httpToStream\<lparr>responseBuffer := m1\<rparr>\<rparr>))) = []"
  using second_write_errors[OF assms, of m2]
  by (simp add: errored_calls httpToStream_def)

text \<open>
  C8. The writable side of \<open>httpToStream\<close>, with a first message written and awaited: the
  second \<open>write\<close> is rejected with an error whose message contains "HTTP stream does not
  support multiple writes", as claimed. But this error leaves the stream errored, so the
  \<open>close\<close> that follows is rejected without reaching the sink: the first message stays in
  the buffer, and nothing at all is written to the HTTP response, where the claim has the
  first message delivered with status 200.
\<close>

theorem second_write_loses_response:
  "stream_write pingMessage writable = (Fulfilled, firstWritten)
   \<and> responseBuffer (ws_sink firstWritten) = pingMessage
   \<and> stream_write (JObj []) firstWritten =
       (Rejected (Reason multipleWritesMessage), secondRefused)
   \<and> str_includes multipleWritesMessage ''HTTP stream does not support multiple writes''
   \<and> stream_close fixedText secondRefused = (Rejected TypeError, secondRefused)
   \<and> responseBuffer (ws_sink secondRefused) = pingMessage
   \<and> responseWritten (ws_sink secondRefused) = False
   \<and> res (ws_sink secondRefused) = []"
  by (simp add: firstWritten_def secondRefused_def stream_write_def stream_close_def
      writable_def sink_write_def httpToStream_def pingMessage_def multipleWritesMessage_def
      starts_with_def)

section \<open>The mode catalog\<close>

text \<open>
  C9. The catalog has exactly the mode ids \<open>ask\<close>, \<open>plan\<close> and \<open>agent\<close>; \<open>ask\<close>
  declares no tools, \<open>plan\<close> declares \<open>[filesystem]\<close>, \<open>agent\<close> declares
  \<open>[filesystem, terminal]\<close>; the declared tools grow along the catalog.
\<close>

theorem mode_catalog:
  "set getAvailableModes = {''ask'', ''plan'', ''agent''}
   \<and> distinct getAvailableModes
   \<and> map_option availableTools (getModeConfig ''ask'') = Some None
   \<and> map_option availableTools (getModeConfig ''plan'') = Some (Some [''filesystem''])
   \<and> map_option availableTools (getModeConfig ''agent'') = Some (Some [''filesystem'', ''terminal''])
   \<and> set (declaredTools ''ask'') \<subseteq> set (declaredTools ''plan'')
   \<and> set (declaredTools ''plan'') \<subseteq> set (declaredTools ''agent'')"
  by (auto simp: getAvailableModes_def modeCatalog_def getModeConfig_def declaredTools_def)

section \<open>The size of the connection pool\<close>

text \<open>
  C2. With \<open>maxConnections = 1\<close>, two calls of \<open>acquire\<close> started before either
  factory has answered both find the map empty, both create a connection, and the map
  then holds two connections, both in use: the number of connections exceeds the limit.
\<close>

theorem pool_exceeds_limit:
  "(case runPool burst (newConnectionPool limitOne) of
      None \<Rightarrow> False
    | Some p \<Rightarrow>
        maxConnections (config p) = 1
        \<and> map fst (connections p) = [''conn-1'', ''conn-2'']
        \<and> map (inUse \<circ> snd) (connections p) = [True, True]
        \<and> map (connection \<circ> snd) (connections p) = [''a'', ''b'']
        \<and> activeConnections (metrics p) = 2
        \<and> suspended p = [])"
  by (simp add: burst_def newConnectionPool_def limitOne_def acquireStart_def
      getIdleConnection_def createConnectionDone_def acquireResume_def markInUse_def
      waitingDone_def connectionName_def assoc_delete_def digit_char_def Let_def)

section \<open>Connection ids are unique\<close>

lemma digit_value_digit_char: "d < 10 \<Longrightarrow> digit_value (digit_char d) = d"
proof -
  assume "d < 10"
  then have "d = 0 \<or> d = 1 \<or> d = 2 \<or> d = 3 \<or> d = 4 \<or> d = 5 \<or> d = 6 \<or> d = 7
             \<or> d = 8 \<or> d = 9" by arith
  then show ?thesis
    by (elim disjE) (simp_all add: digit_value_def digit_char_def)
qed

lemma decimal_value_snoc: "decimal_value (s @ [c]) = 10 * decimal_value s + digit_value c"
  by (simp add: decimal_value_def)

lemma decimal_value_show_nat: "decimal_value (show_nat n) = n"
proof (induction n rule: show_nat.induct)
  case (1 n)
  show ?case
  proof (cases "n < 10")
    case True
    then show ?thesis
      by (simp add: decimal_value_def digit_value_digit_char)
  next
    case False
    have "decimal_value (show_nat n) = 10 * decimal_value (show_nat (n div 10)) + digit_value (digit_char (n mod 10))"
      using False by (subst show_nat.simps) (simp add: decimal_value_snoc)
    also have "\<dots> = 10 * (n div 10) + n mod 10"
      using 1[OF False] by (simp add: digit_value_digit_char)
    finally show ?thesis by simp
  qed
qed

lemma show_nat_inj: "show_nat a = show_nat b \<Longrightarrow> a = b"
  by (metis decimal_value_show_nat)

lemma connectionName_inj: "connectionName a = connectionName b \<Longrightarrow> a = b"
  by (simp add: connectionName_def show_nat_inj)

section \<open>Accounting of the connection pool\<close>

lemma set_assoc_delete: "set (assoc_delete k kvs) = {kv \<in> set kvs. fst kv \<noteq> k}"
  by (auto simp: assoc_delete_def)

lemma keys_assoc_delete: "map fst (assoc_delete k kvs) = filter (\<lambda>x. x \<noteq> k) (map fst kvs)"
  by (induction kvs) (auto simp: assoc_delete_def)

lemma keys_assoc_set:
  "map fst (assoc_set k v kvs) = (if k \<in> set (map fst kvs) then map fst kvs else map fst kvs @ [k])"
  by (induction kvs) force+

lemma set_assoc_set:
  "distinct (map fst kvs) \<Longrightarrow> set (assoc_set k v kvs) = insert (k, v) {kv \<in> set kvs. fst kv \<noteq> k}"
  by (induction kvs) force+

lemma length_filter_distinct:
  "distinct xs \<Longrightarrow> k \<in> set xs \<Longrightarrow> Suc (length (filter (\<lambda>x. x \<noteq> k) xs)) = length xs"
proof (induction xs)
  case Nil
  then show ?case by simp
next
  case (Cons a xs)
  show ?case
  proof (cases "a = k")
    case True
    then have "k \<notin> set xs" using Cons.prems(1) by simp
    then have "filter (\<lambda>x. x \<noteq> k) xs = xs" by (auto simp: filter_id_conv)
    then show ?thesis using True by simp
  next
    case False
    then show ?thesis using Cons by simp
  qed
qed

lemma map_of_fresh: "map_of kvs k = None \<Longrightarrow> k \<notin> set (map fst kvs)"
  by (simp add: map_of_eq_None_iff)

lemma map_of_member: "map_of kvs k = Some v \<Longrightarrow> k \<in> set (map fst kvs)"
  by (metis map_of_eq_None_iff option.distinct(1) set_map)

lemma pool_inv_new: "pool_inv (newConnectionPool cfg)"
  by (simp add: pool_inv_def connectionIds_def newConnectionPool_def)

lemma connectionIds_markInUse [simp]: "connectionIds (markInUse cid now p) = connectionIds p"
proof -
  have "map fst (map (\<lambda>(k, c). if k = cid then (k, c\<lparr>inUse := True, lastUsedAt := now\<rparr>) else (k, c)) cs)
           = map fst cs" for cs :: "(string \<times> 'a PooledConnection) list"
    by (induction cs) auto
  then show ?thesis by (simp add: connectionIds_def markInUse_def)
qed

lemma pool_inv_cong:
  "pool_inv p \<Longrightarrow> connectionIds p' = connectionIds p \<Longrightarrow> suspended p' = suspended p \<Longrightarrow>
   nextConnectionId p' = nextConnectionId p \<Longrightarrow>
   totalCreated (metrics p') = totalCreated (metrics p) \<Longrightarrow>
   totalDestroyed (metrics p') = totalDestroyed (metrics p) \<Longrightarrow> pool_inv p'"
  by (simp add: pool_inv_def)

lemma pool_inv_markInUse: "pool_inv p \<Longrightarrow> pool_inv (markInUse cid now p)"
  by (erule pool_inv_cong) (simp, simp_all add: markInUse_def)

lemma pool_inv_waitingDone: "pool_inv p \<Longrightarrow> pool_inv (waitingDone p)"
  by (erule pool_inv_cong) (simp_all add: waitingDone_def connectionIds_def)

text \<open>Dropping or re-labelling a suspended call that is not awaiting a factory.\<close>

lemma pool_inv_suspended:
  assumes "pool_inv p" and "distinct (map fst S)"
    and "\<And>t cid. (t, AwaitingFactory cid) \<in> set S \<Longrightarrow> (t, AwaitingFactory cid) \<in> set (suspended p)"
  shows "pool_inv (p\<lparr>suspended := S\<rparr>)"
  using assms unfolding pool_inv_def connectionIds_def by simp blast

lemma pool_inv_drop: "pool_inv p \<Longrightarrow> pool_inv (p\<lparr>suspended := assoc_delete ticket (suspended p)\<rparr>)"
proof (rule pool_inv_suspended)
  assume i: "pool_inv p"
  then show "pool_inv p" .
  show "distinct (map fst (assoc_delete ticket (suspended p)))"
    using i by (simp add: keys_assoc_delete pool_inv_def)
  show "\<And>t cid. (t, AwaitingFactory cid) \<in> set (assoc_delete ticket (suspended p)) \<Longrightarrow>
          (t, AwaitingFactory cid) \<in> set (suspended p)"
    by (simp add: set_assoc_delete)
qed

lemma pool_inv_relabel:
  assumes "pool_inv p" and "\<And>cid. st \<noteq> AwaitingFactory cid"
  shows "pool_inv (p\<lparr>suspended := assoc_set ticket st (suspended p)\<rparr>)"
proof (rule pool_inv_suspended)
  show "pool_inv p" by fact
  have d: "distinct (map fst (suspended p))" using assms(1) by (simp add: pool_inv_def)
  then show "distinct (map fst (assoc_set ticket st (suspended p)))"
    by (simp add: keys_assoc_set)
  show "\<And>t cid. (t, AwaitingFactory cid) \<in> set (assoc_set ticket st (suspended p)) \<Longrightarrow>
          (t, AwaitingFactory cid) \<in> set (suspended p)"
    using assms(2) by (auto simp: set_assoc_set[OF d])
qed

lemma pool_inv_acquireResume: "pool_inv p \<Longrightarrow> pool_inv (acquireResume ticket cid now p)"
proof -
  assume i: "pool_inv p"
  have "pool_inv (waitingDone (markInUse cid now p))"
    by (intro pool_inv_waitingDone pool_inv_markInUse i)
  then have "pool_inv ((waitingDone (markInUse cid now p))
                \<lparr>suspended := assoc_delete ticket (suspended (waitingDone (markInUse cid now p)))\<rparr>)"
    by (rule pool_inv_drop)
  then show ?thesis by (simp add: acquireResume_def waitingDone_def markInUse_def)
qed

lemma pool_inv_acquireFailed: "pool_inv p \<Longrightarrow> pool_inv (acquireFailed ticket p)"
proof -
  assume i: "pool_inv p"
  have "pool_inv ((waitingDone p)\<lparr>suspended := assoc_delete ticket (suspended (waitingDone p))\<rparr>)"
    by (intro pool_inv_drop pool_inv_waitingDone i)
  then show ?thesis by (simp add: acquireFailed_def waitingDone_def)
qed

lemma pool_inv_serveWaitingRequest: "pool_inv p \<Longrightarrow> pool_inv (serveWaitingRequest p)"
proof -
  assume i: "pool_inv p"
  have q: "pool_inv (p\<lparr>waitingQueue := rest\<rparr>)" for rest
    using i by (rule pool_inv_cong) (simp_all add: connectionIds_def)
  have "pool_inv ((p\<lparr>waitingQueue := rest\<rparr>)
           \<lparr>suspended := assoc_set ticket (Handed c) (suspended (p\<lparr>waitingQueue := rest\<rparr>))\<rparr>)"
    for rest ticket c
    by (rule pool_inv_relabel[OF q]) simp
  then show ?thesis
    using i q by (auto simp: serveWaitingRequest_def split: list.splits option.splits)
qed

lemma pool_inv_release: "pool_inv p \<Longrightarrow> pool_inv (release cid now p)"
proof (cases "map_of (connections p) cid")
  case None
  assume "pool_inv p"
  then show ?thesis using None by (simp add: release_def)
next
  case (Some c)
  assume i: "pool_inv p"
  let ?p1 = "p\<lparr>connections :=
                 assoc_set cid (c\<lparr>inUse := False, lastUsedAt := now,
                                   requestCount := requestCount c + 1\<rparr>) (connections p),
               metrics := (metrics p)\<lparr>activeConnections := activeConnections (metrics p) - 1,
                                       idleConnections := idleConnections (metrics p) + 1\<rparr>\<rparr>"
  have "connectionIds ?p1 = connectionIds p"
    using map_of_member[OF Some] by (simp add: connectionIds_def keys_assoc_set)
  then have "pool_inv ?p1" using i by (intro pool_inv_cong[OF i]) simp_all
  then show ?thesis using Some by (simp add: release_def pool_inv_serveWaitingRequest)
qed

lemma pool_inv_destroyConnection: "pool_inv p \<Longrightarrow> pool_inv (destroyConnection cid p)"
proof (cases "map_of (connections p) cid")
  case None
  assume "pool_inv p"
  then show ?thesis using None by (simp add: destroyConnection_def)
next
  case (Some c)
  assume i: "pool_inv p"
  have m: "cid \<in> set (connectionIds p)" using map_of_member[OF Some] by (simp add: connectionIds_def)
  have d: "distinct (connectionIds p)" using i by (simp add: pool_inv_def)
  have l: "Suc (length (filter (\<lambda>x. x \<noteq> cid) (connectionIds p))) = length (connectionIds p)"
    by (rule length_filter_distinct[OF d m])
  show ?thesis
    using i l Some
    unfolding pool_inv_def destroyConnection_def connectionIds_def
    by (auto simp: keys_assoc_delete)
qed

lemma pool_inv_fold_destroy: "pool_inv p \<Longrightarrow> pool_inv (fold destroyConnection ids p)"
  by (induction ids arbitrary: p) (simp_all add: pool_inv_destroyConnection)

lemma pool_inv_rejectWaiter: "pool_inv p \<Longrightarrow> pool_inv (rejectWaiter ticket p)"
  by (simp add: rejectWaiter_def pool_inv_acquireFailed)

lemma pool_inv_fold_reject: "pool_inv p \<Longrightarrow> pool_inv (fold rejectWaiter ts p)"
  by (induction ts arbitrary: p) (simp_all add: pool_inv_rejectWaiter)

lemma pool_invI:
  assumes "totalCreated (metrics p) = totalDestroyed (metrics p) + length (connectionIds p)"
    and "distinct (connectionIds p)"
    and "distinct (map fst (suspended p))"
    and "\<And>k. k \<in> set (connectionIds p) \<Longrightarrow> \<exists>n. n \<le> nextConnectionId p \<and> k = connectionName n"
    and "\<And>t cid. (t, AwaitingFactory cid) \<in> set (suspended p) \<Longrightarrow>
           \<exists>n. n \<le> nextConnectionId p \<and> cid = connectionName n"
    and "\<And>t cid. (t, AwaitingFactory cid) \<in> set (suspended p) \<Longrightarrow> cid \<notin> set (connectionIds p)"
    and "\<And>t t' cid. (t, AwaitingFactory cid) \<in> set (suspended p) \<Longrightarrow>
           (t', AwaitingFactory cid) \<in> set (suspended p) \<Longrightarrow> t = t'"
  shows "pool_inv p"
  unfolding pool_inv_def using assms by blast

lemma pool_inv_count:
  "pool_inv p \<Longrightarrow> totalCreated (metrics p) = totalDestroyed (metrics p) + length (connectionIds p)"
  by (simp add: pool_inv_def)

lemma pool_inv_ids: "pool_inv p \<Longrightarrow> distinct (connectionIds p)"
  by (simp add: pool_inv_def)

lemma pool_inv_tickets: "pool_inv p \<Longrightarrow> distinct (map fst (suspended p))"
  by (simp add: pool_inv_def)

lemma pool_inv_named:
  "pool_inv p \<Longrightarrow> k \<in> set (connectionIds p) \<Longrightarrow> \<exists>n. n \<le> nextConnectionId p \<and> k = connectionName n"
  by (simp add: pool_inv_def)

lemma pool_inv_drawn:
  "pool_inv p \<Longrightarrow> (t, AwaitingFactory cid) \<in> set (suspended p) \<Longrightarrow>
   \<exists>n. n \<le> nextConnectionId p \<and> cid = connectionName n"
  unfolding pool_inv_def by blast

lemma pool_inv_unused:
  "pool_inv p \<Longrightarrow> (t, AwaitingFactory cid) \<in> set (suspended p) \<Longrightarrow> cid \<notin> set (connectionIds p)"
  unfolding pool_inv_def by blast

lemma pool_inv_owner:
  "pool_inv p \<Longrightarrow> (t, AwaitingFactory cid) \<in> set (suspended p) \<Longrightarrow>
   (t', AwaitingFactory cid) \<in> set (suspended p) \<Longrightarrow> t = t'"
  unfolding pool_inv_def by blast

lemma pool_inv_acquireStart:
  assumes i: "pool_inv p" and fresh: "map_of (suspended p) ticket = None"
  shows "pool_inv (acquireStart ticket now p)"
proof -
  let ?p1 = "p\<lparr>metrics := (metrics p)\<lparr>totalRequests := totalRequests (metrics p) + 1,
                                           waitingRequests := waitingRequests (metrics p) + 1\<rparr>\<rparr>"
  have i1: "pool_inv ?p1" using i by (rule pool_inv_cong) (simp_all add: connectionIds_def)
  have t: "ticket \<notin> set (map fst (suspended p))" using fresh by (rule map_of_fresh)
  have idle: "pool_inv (waitingDone (markInUse cid now ?p1))" for cid
    by (intro pool_inv_waitingDone pool_inv_markInUse i1)
  let ?park = "?p1\<lparr>waitingQueue := waitingQueue ?p1 @ [(ticket, now)],
                     suspended := suspended ?p1 @ [(ticket, Parked)]\<rparr>"
  have park: "pool_inv ?park"
  proof -
    have "pool_inv (?p1\<lparr>waitingQueue := waitingQueue ?p1 @ [(ticket, now)]\<rparr>)"
      using i1 by (rule pool_inv_cong) (simp_all add: connectionIds_def)
    then have "pool_inv ((?p1\<lparr>waitingQueue := waitingQueue ?p1 @ [(ticket, now)]\<rparr>)
                   \<lparr>suspended := suspended p @ [(ticket, Parked)]\<rparr>)"
      using t pool_inv_tickets[OF i] by (rule_tac pool_inv_suspended) auto
    then show ?thesis by simp
  qed
  let ?cid = "connectionName (Suc (nextConnectionId p))"
  let ?create = "?p1\<lparr>nextConnectionId := nextConnectionId ?p1 + 1,
                     suspended := suspended ?p1 @ [(ticket, AwaitingFactory ?cid)]\<rparr>"
  have new: "?cid \<noteq> connectionName n" if "n \<le> nextConnectionId p" for n
    using that connectionName_inj[of "Suc (nextConnectionId p)" n] by auto
  have create: "pool_inv ?create"
  proof (rule pool_invI)
    show "totalCreated (metrics ?create) = totalDestroyed (metrics ?create) + length (connectionIds ?create)"
      using pool_inv_count[OF i] by (simp add: connectionIds_def)
    show "distinct (connectionIds ?create)"
      using pool_inv_ids[OF i] by (simp add: connectionIds_def)
    show "distinct (map fst (suspended ?create))"
      using pool_inv_tickets[OF i] t by simp
    show "\<exists>n. n \<le> nextConnectionId ?create \<and> k = connectionName n"
      if "k \<in> set (connectionIds ?create)" for k
    proof -
      have "k \<in> set (connectionIds p)" using that by (simp add: connectionIds_def)
      then obtain n where "n \<le> nextConnectionId p" "k = connectionName n"
        using pool_inv_named[OF i] by blast
      then show ?thesis by (intro exI[of _ n]) simp
    qed
    show "\<exists>n. n \<le> nextConnectionId ?create \<and> cid = connectionName n"
      if "(t, AwaitingFactory cid) \<in> set (suspended ?create)" for t cid
    proof (cases "(t, AwaitingFactory cid) \<in> set (suspended p)")
      case True
      then obtain n where "n \<le> nextConnectionId p" "cid = connectionName n"
        using pool_inv_drawn[OF i] by blast
      then show ?thesis by (intro exI[of _ n]) simp
    next
      case False
      then have "cid = ?cid" using that by simp
      then show ?thesis by (intro exI[of _ "Suc (nextConnectionId p)"]) simp
    qed
    show "cid \<notin> set (connectionIds ?create)"
      if "(t, AwaitingFactory cid) \<in> set (suspended ?create)" for t cid
    proof (cases "(t, AwaitingFactory cid) \<in> set (suspended p)")
      case True
      then show ?thesis using pool_inv_unused[OF i] by (simp add: connectionIds_def)
    next
      case False
      then have c: "cid = ?cid" using that by simp
      show ?thesis
      proof
        assume "cid \<in> set (connectionIds ?create)"
        then have "cid \<in> set (connectionIds p)" by (simp add: connectionIds_def)
        then obtain n where "n \<le> nextConnectionId p" "cid = connectionName n"
          using pool_inv_named[OF i] by blast
        then show False using new[of n] c by metis
      qed
    qed
    show "a = b"
      if ha: "(a, AwaitingFactory cid) \<in> set (suspended ?create)"
        and hb: "(b, AwaitingFactory cid) \<in> set (suspended ?create)" for a b cid
    proof -
      have old: "cid \<noteq> ?cid" if h: "(x, AwaitingFactory cid) \<in> set (suspended p)" for x
      proof -
        obtain n where "n \<le> nextConnectionId p" "cid = connectionName n"
          using pool_inv_drawn[OF i h] by blast
        then show ?thesis using new[of n] by metis
      qed
      have ea: "(a, AwaitingFactory cid) \<in> set (suspended p) \<or> (a = ticket \<and> cid = ?cid)"
        using ha by auto
      have eb: "(b, AwaitingFactory cid) \<in> set (suspended p) \<or> (b = ticket \<and> cid = ?cid)"
        using hb by auto
      show ?thesis
      proof (cases "cid = ?cid")
        case True
        then show ?thesis using ea eb old by blast
      next
        case False
        then show ?thesis using ea eb pool_inv_owner[OF i] by blast
      qed
    qed
  qed
  show ?thesis
    using idle park create
    by (simp add: acquireStart_def Let_def split: option.splits)
qed

lemma pool_inv_createConnectionDone:
  assumes i: "pool_inv p" and aw: "map_of (suspended p) ticket = Some (AwaitingFactory cid)"
  shows "pool_inv (createConnectionDone ticket cid conn now p)"
proof -
  let ?q = "createConnectionDone ticket cid conn now p"
  have mem: "(ticket, AwaitingFactory cid) \<in> set (suspended p)" using aw by (rule map_of_SomeD)
  have unused: "cid \<notin> set (connectionIds p)" by (rule pool_inv_unused[OF i mem])
  have d: "distinct (map fst (suspended p))" by (rule pool_inv_tickets[OF i])
  have ids: "connectionIds ?q = connectionIds p @ [cid]"
    using unused by (simp add: createConnectionDone_def connectionIds_def keys_assoc_set Let_def)
  have sus: "set (suspended ?q) = insert (ticket, FactoryDone cid) {kv \<in> set (suspended p). fst kv \<noteq> ticket}"
    by (simp add: createConnectionDone_def set_assoc_set[OF d] Let_def)
  have keep: "(t, AwaitingFactory c) \<in> set (suspended p) \<and> t \<noteq> ticket"
    if "(t, AwaitingFactory c) \<in> set (suspended ?q)" for t c
    using that by (auto simp: sus)
  show ?thesis
  proof (rule pool_invI)
    show "totalCreated (metrics ?q) = totalDestroyed (metrics ?q) + length (connectionIds ?q)"
      using pool_inv_count[OF i] by (simp add: ids) (simp add: createConnectionDone_def Let_def)
    show "distinct (connectionIds ?q)"
      using pool_inv_ids[OF i] unused by (simp add: ids)
    show "distinct (map fst (suspended ?q))"
      using d by (simp add: createConnectionDone_def keys_assoc_set Let_def)
    have nx: "nextConnectionId ?q = nextConnectionId p"
      by (simp add: createConnectionDone_def Let_def)
    show "\<exists>n. n \<le> nextConnectionId ?q \<and> k = connectionName n"
      if "k \<in> set (connectionIds ?q)" for k
    proof (cases "k = cid")
      case True
      then show ?thesis using pool_inv_drawn[OF i mem] by (simp add: nx)
    next
      case False
      then have "k \<in> set (connectionIds p)" using that by (simp add: ids)
      then show ?thesis using pool_inv_named[OF i] by (simp add: nx)
    qed
    show "\<exists>n. n \<le> nextConnectionId ?q \<and> c = connectionName n"
      if "(t, AwaitingFactory c) \<in> set (suspended ?q)" for t c
      using keep[OF that] pool_inv_drawn[OF i, of t c] by (simp add: nx)
    show "c \<notin> set (connectionIds ?q)"
      if h: "(t, AwaitingFactory c) \<in> set (suspended ?q)" for t c
    proof -
      have k: "(t, AwaitingFactory c) \<in> set (suspended p)" "t \<noteq> ticket" using keep[OF h] by auto
      have "c \<noteq> cid" using pool_inv_owner[OF i k(1), of ticket] mem k(2) by auto
      then show ?thesis using pool_inv_unused[OF i k(1)] by (simp add: ids)
    qed
    show "a = b"
      if ha: "(a, AwaitingFactory c) \<in> set (suspended ?q)"
        and hb: "(b, AwaitingFactory c) \<in> set (suspended ?q)" for a b c
      using keep[OF ha] keep[OF hb] pool_inv_owner[OF i] by blast
  qed
qed

lemma pool_inv_cleanup: "pool_inv p \<Longrightarrow> pool_inv (cleanupIdleConnections now p)"
  by (simp add: cleanupIdleConnections_def pool_inv_fold_destroy)

lemma pool_inv_shutdownStart: "pool_inv p \<Longrightarrow> pool_inv (shutdownStart p)"
  unfolding shutdownStart_def drain_def
  by (erule pool_inv_cong) (simp_all add: connectionIds_def)

lemma pool_inv_shutdownFinish: "pool_inv p \<Longrightarrow> pool_inv (shutdownFinish p)"
proof -
  assume i: "pool_inv p"
  let ?p1 = "fold destroyConnection (map fst (connections p)) p"
  let ?p2 = "fold rejectWaiter (map fst (waitingQueue ?p1)) ?p1"
  have "pool_inv ?p2" by (intro pool_inv_fold_reject pool_inv_fold_destroy i)
  then have "pool_inv (?p2\<lparr>waitingQueue := []\<rparr>)"
    by (rule pool_inv_cong) (simp_all add: connectionIds_def)
  then show ?thesis by (simp add: shutdownFinish_def Let_def)
qed

lemma pool_inv_step: "pool_inv p \<Longrightarrow> step e p = Some p' \<Longrightarrow> pool_inv p'"
proof (cases e)
  case (AcquireStart ticket now)
  assume "pool_inv p" "step e p = Some p'"
  then show ?thesis using AcquireStart
    by (auto simp: pool_inv_acquireStart split: if_splits)
next
  case (FactoryResolved ticket conn now)
  assume "pool_inv p" "step e p = Some p'"
  then show ?thesis using FactoryResolved
    by (auto simp: pool_inv_createConnectionDone split: option.splits Suspended.splits)
next
  case (FactoryRejected ticket)
  assume "pool_inv p" "step e p = Some p'"
  then show ?thesis using FactoryRejected
    by (auto simp: pool_inv_acquireFailed split: option.splits Suspended.splits)
next
  case (AcquireResume ticket now)
  assume "pool_inv p" "step e p = Some p'"
  then show ?thesis using AcquireResume
    by (auto simp: pool_inv_acquireResume split: option.splits Suspended.splits)
next
  case (Release cid now)
  assume "pool_inv p" "step e p = Some p'"
  then show ?thesis using Release by (auto simp: pool_inv_release)
next
  case (WaitTimeout ticket)
  assume "pool_inv p" "step e p = Some p'"
  then show ?thesis using WaitTimeout
    by (auto simp: waitTimeout_def pool_inv_acquireFailed split: if_splits)
next
  case (CleanupIdle now)
  assume "pool_inv p" "step e p = Some p'"
  then show ?thesis using CleanupIdle by (auto simp: pool_inv_cleanup)
next
  case Drain
  assume "pool_inv p" "step e p = Some p'"
  then show ?thesis using Drain by (auto simp: drain_def)
next
  case ShutdownStart
  assume "pool_inv p" "step e p = Some p'"
  then show ?thesis using ShutdownStart by (auto simp: pool_inv_shutdownStart)
next
  case ShutdownFinish
  assume "pool_inv p" "step e p = Some p'"
  then show ?thesis using ShutdownFinish by (auto simp: pool_inv_shutdownFinish)
qed

lemma pool_inv_runPool: "pool_inv p \<Longrightarrow> runPool es p = Some p' \<Longrightarrow> pool_inv p'"
proof (induction es arbitrary: p)
  case Nil
  then show ?case by simp
next
  case (Cons e es)
  then show ?case by (auto split: option.splits dest: pool_inv_step)
qed

text \<open>
  After any steps of a new pool, \<open>totalCreated - totalDestroyed\<close> is the size of the
  map; in particular when \<open>shutdown\<close> has finished.
\<close>

lemma pool_accounting:
  "runPool es (newConnectionPool cfg) = Some p \<Longrightarrow>
   int (totalCreated (metrics p)) - int (totalDestroyed (metrics p)) = int (length (connections p))"
  using pool_inv_count[OF pool_inv_runPool[OF pool_inv_new]]
  by (fastforce simp: connectionIds_def)

section \<open>The size of the pool when calls do not overlap\<close>

lemma filter_assoc_delete_le:
  "length (filter P (assoc_delete k kvs)) \<le> length (filter P kvs)"
  by (induction kvs) (auto simp: assoc_delete_def)

lemma filter_assoc_set_le:
  "\<not> P (k, v) \<Longrightarrow> length (filter P (assoc_set k v kvs)) \<le> length (filter P kvs)"
  by (induction kvs) auto

lemma filter_assoc_set_less:
  "\<not> P (k, v) \<Longrightarrow> map_of kvs k = Some old \<Longrightarrow> P (k, old) \<Longrightarrow>
   Suc (length (filter P (assoc_set k v kvs))) = length (filter P kvs)"
  by (induction kvs) (auto split: if_splits)

lemma length_assoc_set:
  "length (assoc_set k v kvs) = (if k \<in> set (map fst kvs) then length kvs else Suc (length kvs))"
  by (induction kvs) force+

lemma config_markInUse [simp]: "config (markInUse cid now p) = config p"
  by (simp add: markInUse_def)

lemma config_waitingDone [simp]: "config (waitingDone p) = config p"
  by (simp add: waitingDone_def)

lemma reserved_markInUse [simp]: "reserved (markInUse cid now p) = reserved p"
  by (simp add: markInUse_def reserved_def creating_def)

lemma reserved_waitingDone [simp]: "reserved (waitingDone p) = reserved p"
  by (simp add: waitingDone_def reserved_def creating_def)

lemma config_acquireStart [simp]: "config (acquireStart ticket now p) = config p"
  by (simp add: acquireStart_def Let_def split: option.splits)

lemma reserved_acquireStart:
  assumes "creating p = []" and "reserved p \<le> maxConnections (config p)"
  shows "reserved (acquireStart ticket now p) \<le> maxConnections (config p)"
proof -
  let ?p1 = "p\<lparr>metrics := (metrics p)\<lparr>totalRequests := totalRequests (metrics p) + 1,
                                           waitingRequests := waitingRequests (metrics p) + 1\<rparr>\<rparr>"
  have r1: "reserved ?p1 = reserved p" "creating ?p1 = []" "config ?p1 = config p"
    using assms(1) by (simp_all add: reserved_def creating_def)
  show ?thesis
  proof (cases "getIdleConnection ?p1")
    case (Some c)
    then show ?thesis using assms(2) r1 by (simp add: acquireStart_def Let_def)
  next
    case None
    show ?thesis
    proof (cases "int (length (connections ?p1)) < maxConnections (config ?p1)")
      case True
      then show ?thesis
        using None assms(1) by (simp add: acquireStart_def Let_def reserved_def creating_def)
    next
      case False
      then show ?thesis
        using None assms by (simp add: acquireStart_def Let_def reserved_def creating_def)
    qed
  qed
qed

lemma config_createConnectionDone [simp]:
  "config (createConnectionDone ticket cid conn now p) = config p"
  by (simp add: createConnectionDone_def Let_def)

lemma reserved_createConnectionDone:
  assumes "map_of (suspended p) ticket = Some (AwaitingFactory cid)"
  shows "reserved (createConnectionDone ticket cid conn now p) \<le> reserved p"
proof -
  have "Suc (length (filter awaitsFactory (assoc_set ticket (FactoryDone cid) (suspended p))))
        = length (filter awaitsFactory (suspended p))"
    by (rule filter_assoc_set_less[OF _ assms]) simp_all
  then show ?thesis
    by (simp add: createConnectionDone_def reserved_def creating_def length_assoc_set Let_def)
qed

lemma config_acquireResume [simp]: "config (acquireResume ticket cid now p) = config p"
  by (simp add: acquireResume_def)

lemma reserved_acquireResume: "reserved (acquireResume ticket cid now p) \<le> reserved p"
  using filter_assoc_delete_le[of awaitsFactory ticket "suspended p"]
  by (simp add: acquireResume_def reserved_def creating_def waitingDone_def markInUse_def)

lemma config_acquireFailed [simp]: "config (acquireFailed ticket p) = config p"
  by (simp add: acquireFailed_def)

lemma reserved_acquireFailed: "reserved (acquireFailed ticket p) \<le> reserved p"
  using filter_assoc_delete_le[of awaitsFactory ticket "suspended p"]
  by (simp add: acquireFailed_def reserved_def creating_def waitingDone_def)

lemma config_serveWaitingRequest [simp]: "config (serveWaitingRequest p) = config p"
  by (simp add: serveWaitingRequest_def split: list.splits option.splits)

lemma reserved_serveWaitingRequest: "reserved (serveWaitingRequest p) \<le> reserved p"
proof -
  have "length (filter awaitsFactory (assoc_set t (Handed c) (suspended p)))
          \<le> length (filter awaitsFactory (suspended p))" for t c
    by (rule filter_assoc_set_le) simp
  then show ?thesis
    by (auto simp: serveWaitingRequest_def reserved_def creating_def split: list.splits option.splits)
qed

lemma config_release [simp]: "config (release cid now p) = config p"
  by (simp add: release_def split: option.splits)

lemma reserved_release: "reserved (release cid now p) \<le> reserved p"
proof (cases "map_of (connections p) cid")
  case None
  then show ?thesis by (simp add: release_def)
next
  case (Some c)
  let ?p1 = "p\<lparr>connections :=
                 assoc_set cid (c\<lparr>inUse := False, lastUsedAt := now,
                                   requestCount := requestCount c + 1\<rparr>) (connections p),
               metrics := (metrics p)\<lparr>activeConnections := activeConnections (metrics p) - 1,
                                       idleConnections := idleConnections (metrics p) + 1\<rparr>\<rparr>"
  have "cid \<in> set (map fst (connections p))" by (rule map_of_member[OF Some])
  then have "reserved ?p1 = reserved p"
    by (simp add: reserved_def creating_def length_assoc_set)
  then show ?thesis
    using Some reserved_serveWaitingRequest[of ?p1] by (simp add: release_def)
qed

lemma config_destroyConnection [simp]: "config (destroyConnection cid p) = config p"
  by (simp add: destroyConnection_def split: option.splits)

lemma reserved_destroyConnection: "reserved (destroyConnection cid p) \<le> reserved p"
  using filter_assoc_delete_le[of "\<lambda>x. True" cid "connections p"]
  by (auto simp: destroyConnection_def reserved_def creating_def split: option.splits)

lemma config_fold_destroy [simp]: "config (fold destroyConnection ids p) = config p"
  by (induction ids arbitrary: p) simp_all

lemma reserved_fold_destroy: "reserved (fold destroyConnection ids p) \<le> reserved p"
proof (induction ids arbitrary: p)
  case Nil
  then show ?case by simp
next
  case (Cons a ids)
  show ?case
    using Cons[of "destroyConnection a p"] reserved_destroyConnection[of a p] by simp
qed

lemma config_rejectWaiter [simp]: "config (rejectWaiter ticket p) = config p"
  by (simp add: rejectWaiter_def)

lemma reserved_rejectWaiter: "reserved (rejectWaiter ticket p) \<le> reserved p"
  using reserved_acquireFailed[of ticket p] by (simp add: rejectWaiter_def)

lemma config_fold_reject [simp]: "config (fold rejectWaiter ts p) = config p"
  by (induction ts arbitrary: p) simp_all

lemma reserved_fold_reject: "reserved (fold rejectWaiter ts p) \<le> reserved p"
proof (induction ts arbitrary: p)
  case Nil
  then show ?case by simp
next
  case (Cons a ts)
  show ?case
    using Cons[of "rejectWaiter a p"] reserved_rejectWaiter[of a p] by simp
qed

lemma config_shutdownFinish [simp]: "config (shutdownFinish p) = config p"
  by (simp add: shutdownFinish_def Let_def)

lemma reserved_shutdownFinish: "reserved (shutdownFinish p) \<le> reserved p"
proof -
  let ?p1 = "fold destroyConnection (map fst (connections p)) p"
  let ?p2 = "fold rejectWaiter (map fst (waitingQueue ?p1)) ?p1"
  have "reserved ?p2 \<le> reserved p"
    using reserved_fold_destroy[of "map fst (connections p)" p]
      reserved_fold_reject[of "map fst (waitingQueue ?p1)" ?p1] by simp
  moreover have "reserved (?p2\<lparr>waitingQueue := []\<rparr>) = reserved ?p2"
    by (simp add: reserved_def creating_def)
  ultimately show ?thesis by (simp add: shutdownFinish_def Let_def)
qed

lemma config_step: "step e p = Some p' \<Longrightarrow> config p' = config p"
  by (cases e)
     (auto simp: waitTimeout_def cleanupIdleConnections_def drain_def shutdownStart_def
        split: if_splits option.splits Suspended.splits)

lemma reserved_step:
  assumes s: "step e p = Some p'" and a: "startsAcquire e \<longrightarrow> creating p = []"
    and r: "reserved p \<le> maxConnections (config p)"
  shows "reserved p' \<le> maxConnections (config p)"
proof (cases e)
  case (AcquireStart ticket now)
  then show ?thesis using s a r reserved_acquireStart[of p ticket now]
    by (auto split: if_splits)
next
  case (FactoryResolved ticket conn now)
  then obtain cid where c: "map_of (suspended p) ticket = Some (AwaitingFactory cid)"
      "p' = createConnectionDone ticket cid conn now p"
    using s by (auto split: option.splits Suspended.splits)
  show ?thesis using reserved_createConnectionDone[OF c(1), of conn now] r c(2) by simp
next
  case (FactoryRejected ticket)
  then have "p' = acquireFailed ticket p"
    using s by (auto split: option.splits Suspended.splits)
  then show ?thesis using reserved_acquireFailed[of ticket p] r by simp
next
  case (AcquireResume ticket now)
  then obtain cid where "p' = acquireResume ticket cid now p"
    using s by (auto split: option.splits Suspended.splits)
  then show ?thesis using reserved_acquireResume[of ticket cid now p] r by simp
next
  case (Release cid now)
  then show ?thesis using s r reserved_release[of cid now p] by auto
next
  case (WaitTimeout ticket)
  then have "p' = acquireFailed ticket p"
    using s by (auto simp: waitTimeout_def split: if_splits)
  then show ?thesis using reserved_acquireFailed[of ticket p] r by simp
next
  case (CleanupIdle now)
  then obtain ids where "p' = fold destroyConnection ids p"
    using s by (auto simp: cleanupIdleConnections_def)
  then show ?thesis using reserved_fold_destroy[of ids p] r by simp
next
  case Drain
  then show ?thesis using s r by (auto simp: drain_def)
next
  case ShutdownStart
  then show ?thesis using s r
    by (auto simp: shutdownStart_def drain_def reserved_def creating_def)
next
  case ShutdownFinish
  then show ?thesis using s r reserved_shutdownFinish[of p] by auto
qed

lemma reserved_runPool:
  "runPool es p = Some p' \<Longrightarrow> serial es p \<Longrightarrow> reserved p \<le> maxConnections (config p) \<Longrightarrow>
   reserved p' \<le> maxConnections (config p)"
proof (induction es arbitrary: p)
  case Nil
  then show ?case by simp
next
  case (Cons e es)
  obtain q where q: "step e p = Some q" "runPool es q = Some p'" "serial es q"
    using Cons.prems(1,2) by (auto split: option.splits)
  have c: "config q = config p" by (rule config_step[OF q(1)])
  have "reserved q \<le> maxConnections (config q)"
    using reserved_step[OF q(1)] Cons.prems(2,3) c by simp
  then have "reserved p' \<le> maxConnections (config q)" by (rule Cons.IH[OF q(2,3)])
  then show ?case using c by simp
qed

text \<open>
  When no call of \<open>acquire\<close> starts while another one is awaiting its factory, the map
  never holds more than \<open>maxConnections\<close> connections.
\<close>

lemma pool_bounded_without_overlap:
  assumes "0 \<le> maxConnections cfg"
    and "runPool es (newConnectionPool cfg) = Some p"
    and "serial es (newConnectionPool cfg)"
  shows "int (length (connections p)) \<le> maxConnections cfg"
proof -
  have "reserved p \<le> maxConnections (config (newConnectionPool cfg :: 'a ConnectionPool))"
    using assms(1) by (intro reserved_runPool[OF assms(2,3)])
      (simp add: reserved_def creating_def newConnectionPool_def)
  then show ?thesis by (simp add: reserved_def newConnectionPool_def)
qed

lemma burst_overlaps: "\<not> serial burst (newConnectionPool limitOne)"
  by (simp add: burst_def newConnectionPool_def limitOne_def acquireStart_def
      getIdleConnection_def creating_def Let_def)

section \<open>The active map stays well formed\<close>

text \<open>The shape of the active map that the statement on session cancellation assumes holds
  for a new manager and is kept by every operation of the manager.\<close>

lemma tracked_ok_new: "tracked_ok newToolCallManager"
  by (simp add: tracked_ok_def newToolCallManager_def)

lemma list_all_assoc_set:
  "list_all P kvs \<Longrightarrow> P (k, v) \<Longrightarrow> list_all P (assoc_set k v kvs)"
  by (induction kvs) auto

lemma tracked_ok_store:
  assumes "tracked_ok m" and "info_toolCallId info = tid"
  shows "tracked_ok (m\<lparr>activeToolCalls := assoc_set tid info (activeToolCalls m)\<rparr>)"
  using assms by (simp add: tracked_ok_def keys_assoc_set list_all_assoc_set)

lemma info_toolCallId_applyUpdates [simp]:
  "info_toolCallId (applyUpdates now u info) = info_toolCallId info"
  by (simp add: applyUpdates_def Let_def split: option.splits)

lemma tracked_ok_reportToolCall:
  "tracked_ok m \<Longrightarrow> tracked_ok (snd (snd (reportToolCall now sid name opts m)))"
  by (simp add: reportToolCall_def generateToolCallId_def Let_def tracked_ok_def
      keys_assoc_set list_all_assoc_set)

lemma tracked_ok_updateToolCall:
  "tracked_ok m \<Longrightarrow> tracked_ok (snd (updateToolCall now sid tid u m))"
proof (cases "map_of (activeToolCalls m) tid")
  case None
  assume "tracked_ok m"
  then show ?thesis using None by (simp add: updateToolCall_def)
next
  case (Some info)
  assume t: "tracked_ok m"
  have "info_toolCallId info = tid"
    using tracked_lookup[OF t map_of_SomeD[OF Some]] by simp
  then show ?thesis using Some t by (simp add: updateToolCall_def tracked_ok_store)
qed

lemma tracked_ok_scheduleEviction: "tracked_ok m \<Longrightarrow> tracked_ok (scheduleEviction now tid m)"
  by (simp add: tracked_ok_def scheduleEviction_def)

lemma tracked_ok_completeToolCall:
  "tracked_ok m \<Longrightarrow> tracked_ok (snd (completeToolCall now sid tid opts m))"
proof -
  assume t: "tracked_ok m"
  let ?u = "\<lparr>u_title = co_title opts, u_status = Some completed,
             u_content = co_content opts, u_locations = None,
             u_rawOutput = co_rawOutput opts\<rparr>"
  have "tracked_ok (scheduleEviction now tid (snd (updateToolCall now sid tid ?u m)))"
    by (intro tracked_ok_scheduleEviction tracked_ok_updateToolCall t)
  then show ?thesis by (simp add: completeToolCall_def split_beta)
qed

lemma tracked_ok_failToolCall:
  "tracked_ok m \<Longrightarrow> tracked_ok (snd (failToolCall now sid tid opts m))"
proof -
  assume t: "tracked_ok m"
  have "tracked_ok (scheduleEviction now tid (snd (updateToolCall now sid tid u m)))" for u
    by (intro tracked_ok_scheduleEviction tracked_ok_updateToolCall t)
  then show ?thesis by (simp add: failToolCall_def Let_def split_beta)
qed

lemma tracked_ok_filter:
  "tracked_ok m \<Longrightarrow> tracked_ok (m\<lparr>activeToolCalls := filter P (activeToolCalls m)\<rparr>)"
  by (simp add: tracked_ok_def distinct_map_filter list_all_iff)

lemma tracked_ok_cancelSessionToolCalls:
  assumes "tracked_ok m"
  shows "tracked_ok (snd (cancelSessionToolCalls now sid m))"
proof -
  let ?tcs = "getSessionToolCalls sid m"
  have "distinct (map fst (activeToolCalls m))" using assms by (simp add: tracked_ok_def)
  then have d0: "distinct (map info_toolCallId (map snd (activeToolCalls m)))"
    by (simp only: tracked_ids[OF assms])
  have d: "distinct (map info_toolCallId ?tcs)"
    unfolding getSessionToolCalls_def using d0 by (rule distinct_map_filter)
  have l: "list_all (\<lambda>tc. map_of (activeToolCalls m) (info_toolCallId tc) = Some tc) ?tcs"
    using tracked_lookup[OF assms]
    by (auto simp: list_all_iff getSessionToolCalls_def)
  show ?thesis
    unfolding cancelSessionToolCalls_def cancelLoop_general[OF d l]
    using tracked_ok_filter[OF assms] by simp
qed

lemma tracked_ok_cleanup: "tracked_ok m \<Longrightarrow> tracked_ok (cleanup m)"
  by (simp add: tracked_ok_def cleanup_def)

lemma tracked_ok_runTimers: "tracked_ok m \<Longrightarrow> tracked_ok (runTimers now m)"
proof -
  have f: "tracked_ok (m\<lparr>activeToolCalls := fold (\<lambda>t. assoc_delete (snd t)) due (activeToolCalls m)\<rparr>)"
    if "tracked_ok m" for due :: "(nat \<times> string) list" and m
    using that
  proof (induction due arbitrary: m)
    case Nil
    then show ?case by simp
  next
    case (Cons a due)
    have "tracked_ok (m\<lparr>activeToolCalls := assoc_delete (snd a) (activeToolCalls m)\<rparr>)"
      using tracked_ok_filter[OF Cons.prems] by (simp add: assoc_delete_def)
    from Cons.IH[OF this] show ?case by simp
  qed
  assume "tracked_ok m"
  from f[OF this] show ?thesis
    by (simp add: runTimers_def Let_def tracked_ok_def)
qed

end
